theory Spec2Isabelle
  imports Main "HOL-Library.Word"
begin

section \<open>Background scans of the Aerospike Python client (src/main/client/scan.c)\<close>

text \<open>
  The file embeds the two operations of \<^verbatim>\<open>scan.c\<close>:
  \<^verbatim>\<open>AerospikeClient_ScanApply\<close> (with its worker \<^verbatim>\<open>AerospikeClient_ScanApply_Invoke\<close>)
  and \<^verbatim>\<open>AerospikeClient_ScanInfo\<close>. Both are straight-line C with \<^verbatim>\<open>goto CLEANUP\<close>;
  each \<^verbatim>\<open>goto\<close> is a branch that returns the local variables as they are at that point,
  and the code after the label is a function of those locals.

  Every function the file calls but does not define (the policy helpers, the argument
  converter, the C client library, the CPython API) is a field of the record \<open>env\<close>:
  the theorems hold for every behaviour of these collaborators. Each call the source
  makes is appended to a trace, in program order, so that statements about what was
  called, in which order and how often can be read off the result.
\<close>

subsection \<open>Data\<close>

text \<open>
  A Python object as far as this file looks at it: \<^verbatim>\<open>PyList_Check\<close> tells lists from
  everything else, \<^verbatim>\<open>PyLong_FromLong\<close> builds integers and \<^verbatim>\<open>PyDict_SetItemString\<close>
  fills a dictionary keyed by strings. A dictionary is an association list.
\<close>

datatype py_object =
    Py_None
  | PyLong int
  | PyStr string
  | PyList "py_object list"
  | PyTuple "py_object list"
  | PyDict "(py_object \<times> py_object) list"

text \<open>
  \<^verbatim>\<open>as_status\<close> is an enum of the C client. The file names two of its members; every
  other member is \<open>AEROSPIKE_ERR_OTHER\<close> with its number.
\<close>

datatype as_status = AEROSPIKE_OK | AEROSPIKE_ERR_PARAM | AEROSPIKE_ERR_OTHER int

record as_error =
  code :: as_status
  message :: string

text \<open>The opaque structures of the C client that the file only passes along.\<close>

datatype aerospike = Aerospike nat
datatype as_policy_scan = As_policy_scan nat
datatype as_policy_info = As_policy_info nat
datatype as_list = As_list "py_object list"

text \<open>\<^verbatim>\<open>AerospikeClient * self\<close>: the pointer may be null, and so may \<^verbatim>\<open>self->as\<close>.\<close>

record AerospikeClient =
  as :: "aerospike option"

text \<open>
  The scan descriptor \<^verbatim>\<open>as_scan\<close>: namespace and set, the options that
  \<^verbatim>\<open>set_scan_options\<close> writes, and the record UDF attached by \<^verbatim>\<open>as_scan_apply_each\<close>
  (module, function, argument list; the argument list pointer may be null).
\<close>

record scan_options =
  percent :: nat
  priority :: nat
  nobins :: bool
  concurrent :: bool

record as_scan =
  scan_ns :: string
  scan_set :: string
  scan_opts :: "scan_options option"
  apply_each :: "(string \<times> string \<times> as_list option) option"

text \<open>
  \<^verbatim>\<open>as_scan_info\<close>: \<^verbatim>\<open>status\<close> is a C enum without negative members, which the
  compilers of the platform make an \<^verbatim>\<open>unsigned int\<close>; the two counters are \<^verbatim>\<open>uint32_t\<close>.
\<close>

record as_scan_info =
  status :: "32 word"
  progress_pct :: "32 word"
  records_scanned :: "32 word"

text \<open>
  What \<^verbatim>\<open>PyArg_ParseTupleAndKeywords\<close> stores on success. The format \<^verbatim>\<open>ssssO|OO\<close> gives
  four non-null C strings and a non-null object, and leaves the two optional objects
  null when they are not passed; \<^verbatim>\<open>l|O\<close> gives a C \<^verbatim>\<open>long\<close> (64 bits here) and an
  optional object.
\<close>

record scan_apply_args =
  arg_ns :: string
  arg_set :: string
  arg_module :: string
  arg_function :: string
  arg_args :: py_object
  arg_policy :: "py_object option"
  arg_options :: "py_object option"

record scan_info_args =
  arg_scanid :: "64 word"
  arg_info_policy :: "py_object option"

text \<open>
  The calls the source makes. Calls that take \<^verbatim>\<open>&err\<close> record the error as it is after
  the call; the two store calls and the list conversion record what they returned.
\<close>

datatype event =
    Ev_PyDict_New bool
  | Ev_PyArg_ParseTupleAndKeywords bool
  | Ev_as_error_update as_status string
  | Ev_as_scan_init string string
  | Ev_validate_policy_scan py_object as_error
  | Ev_pyobject_to_policy_scan py_object as_error
  | Ev_pyobject_to_policy_info "py_object option" as_error
  | Ev_set_scan_options py_object as_error
  | Ev_pyobject_to_list py_object as_error "as_list option"
  | Ev_as_scan_apply_each string string "as_list option" bool
  | Ev_aerospike_scan_background as_scan as_error "64 word"
  | Ev_aerospike_scan_info "64 word" as_status as_error as_scan_info
  | Ev_as_list_destroy as_list
  | Ev_as_scan_destroy "as_scan option"
  | Ev_PyErr_SetObject as_error

text \<open>
  The collaborators. A function that takes \<^verbatim>\<open>as_error *\<close> gets the error and returns
  the error it leaves behind, with its other outputs.
  \<^item> \<open>validate_policy_scan\<close>, \<open>pyobject_to_policy_scan\<close>, \<open>pyobject_to_policy_info\<close>,
    \<open>set_scan_options\<close> (policy.h) and \<open>pyobject_to_list\<close> (conversions.h);
    the converters return the pointer they store (\<open>None\<close> is the null pointer).
  \<^item> \<open>as_scan_apply_each_ok\<close>: whether \<^verbatim>\<open>as_scan_apply_each\<close> returns true.
  \<^item> \<open>aerospike_scan_background\<close>: the error and the job identifier it stores; the
    source ignores its return value.
  \<^item> \<open>aerospike_scan_info\<close>: its return value, the error and the \<^verbatim>\<open>as_scan_info\<close> it
    stores.
  \<^item> \<open>PyDict_New_ok\<close>: whether \<^verbatim>\<open>PyDict_New()\<close> returns a dictionary rather than null
    with \<open>MemoryError\<close> pending.
  \<^item> \<open>AS_SCAN_STATUS\<close>: the constant of that name, defined in a header.
  \<^item> \<open>parse_scan_apply\<close>, \<open>parse_scan_info\<close>: \<^verbatim>\<open>PyArg_ParseTupleAndKeywords\<close> on the
    two formats; \<open>None\<close> when it returns false, having raised its own exception.
\<close>

record env =
  validate_policy_scan :: "as_error \<Rightarrow> py_object \<Rightarrow> as_error"
  pyobject_to_policy_scan :: "as_error \<Rightarrow> py_object \<Rightarrow> as_error \<times> as_policy_scan option"
  pyobject_to_policy_info :: "as_error \<Rightarrow> py_object option \<Rightarrow> as_error \<times> as_policy_info option"
  set_scan_options :: "as_error \<Rightarrow> as_scan \<Rightarrow> py_object \<Rightarrow> as_error \<times> scan_options"
  pyobject_to_list :: "as_error \<Rightarrow> py_object \<Rightarrow> as_error \<times> as_list option"
  as_scan_apply_each_ok :: "as_scan \<Rightarrow> string \<Rightarrow> string \<Rightarrow> as_list option \<Rightarrow> bool"
  aerospike_scan_background ::
    "aerospike \<Rightarrow> as_error \<Rightarrow> as_policy_scan option \<Rightarrow> as_scan \<Rightarrow> as_error \<times> 64 word"
  aerospike_scan_info ::
    "aerospike \<Rightarrow> as_error \<Rightarrow> as_policy_info option \<Rightarrow> 64 word \<Rightarrow> as_status \<times> as_error \<times> as_scan_info"
  PyDict_New_ok :: bool
  AS_SCAN_STATUS :: "32 word"
  parse_scan_apply :: "py_object \<Rightarrow> py_object option \<Rightarrow> scan_apply_args option"
  parse_scan_info :: "py_object \<Rightarrow> py_object option \<Rightarrow> scan_info_args option"

text \<open>
  What a call hands back to the interpreter: the returned object (\<open>None\<close> is the null
  pointer), the exception that is pending in the interpreter when the call returns,
  and the trace. No exception is pending when a call starts. \<open>ArgumentError\<close> is the
  exception \<^verbatim>\<open>PyArg_ParseTupleAndKeywords\<close> sets by itself when it returns false;
  \<open>MemoryError\<close> is the exception \<^verbatim>\<open>PyDict_New\<close> sets by itself when it returns null;
  \<open>AerospikeError e\<close> is \<^verbatim>\<open>PyErr_SetObject(PyExc_Exception, py_err)\<close> with \<^verbatim>\<open>py_err\<close>
  built from \<open>e\<close> by \<^verbatim>\<open>error_to_pyobject\<close>, the one way in which the file itself
  reports an error. Setting an exception replaces the pending one, and the file never
  clears one. The collaborators report through \<^verbatim>\<open>err\<close> and leave the pending exception
  as it is.
\<close>

datatype py_exception = ArgumentError | MemoryError | AerospikeError as_error

record call_result =
  retval :: "py_object option"
  raised :: "py_exception option"
  trace :: "event list"

subsection \<open>Helpers of the C client and of CPython, as the source uses them\<close>

text \<open>
  These are functions of the two libraries the file is linked against, each written
  down as its library documents it: \<^verbatim>\<open>as_error_init\<close> clears the error,
  \<^verbatim>\<open>as_error_update\<close> sets code and message, \<^verbatim>\<open>as_scan_init\<close> gives a descriptor bound to
  namespace and set with nothing attached.
\<close>

definition as_error_init :: as_error where
  "as_error_init = \<lparr>code = AEROSPIKE_OK, message = []\<rparr>"

definition as_error_update :: "as_error \<Rightarrow> as_status \<Rightarrow> string \<Rightarrow> as_error" where
  "as_error_update e c m = e\<lparr>code := c, message := m\<rparr>"

definition as_scan_init :: "string \<Rightarrow> string \<Rightarrow> as_scan" where
  "as_scan_init ns st = \<lparr>scan_ns = ns, scan_set = st, scan_opts = None, apply_each = None\<rparr>"

text \<open>
  The test \<^verbatim>\<open>!self || !self->as\<close>: the handle of the C client when both pointers are
  there.
\<close>

definition client_handle :: "AerospikeClient option \<Rightarrow> aerospike option" where
  "client_handle self = (case self of None \<Rightarrow> None | Some c \<Rightarrow> as c)"

fun PyList_Check :: "py_object \<Rightarrow> bool" where
  "PyList_Check (PyList xs) = True"
| "PyList_Check x = False"

text \<open>
  \<^verbatim>\<open>PyLong_FromLong\<close> takes a C \<^verbatim>\<open>long\<close>, 64 bits wide here. A \<^verbatim>\<open>uint64_t\<close> argument
  is converted to \<^verbatim>\<open>long\<close> by reading the same 64 bits as two's complement; a
  \<^verbatim>\<open>uint32_t\<close> or \<^verbatim>\<open>unsigned int\<close> argument keeps its value.
\<close>

definition PyLong_FromLong_u64 :: "64 word \<Rightarrow> py_object" where
  "PyLong_FromLong_u64 w = PyLong (sint w)"

definition PyLong_FromLong_u32 :: "32 word \<Rightarrow> py_object" where
  "PyLong_FromLong_u32 w = PyLong (uint w)"

fun dict_update :: "py_object \<Rightarrow> py_object \<Rightarrow> (py_object \<times> py_object) list \<Rightarrow> (py_object \<times> py_object) list" where
  "dict_update k v [] = [(k, v)]"
| "dict_update k v (p # ps) = (if fst p = k then (k, v) # ps else p # dict_update k v ps)"

fun PyDict_SetItemString :: "py_object \<Rightarrow> string \<Rightarrow> py_object \<Rightarrow> py_object" where
  "PyDict_SetItemString (PyDict kvs) k v = PyDict (dict_update (PyStr k) v kvs)"
| "PyDict_SetItemString d k v = d"

definition PROGRESS_PCT :: string where "PROGRESS_PCT = ''progress_pct''"
definition RECORDS_SCANNED :: string where "RECORDS_SCANNED = ''records_scanned''"
definition STATUS :: string where "STATUS = ''status''"

subsection \<open>AerospikeClient_ScanApply_Invoke\<close>

text \<open>The local variables of the function, and the trace.\<close>

record locals =
  arglist :: "as_list option"
  scan_policy_p :: "as_policy_scan option"
  err :: as_error
  scan :: "as_scan option"
  scan_id :: "64 word"
  is_scan_init :: bool
  calls :: "event list"

definition locals_init :: locals where
  "locals_init = \<lparr>arglist = None, scan_policy_p = None, err = as_error_init, scan = None,
     scan_id = 0, is_scan_init = False, calls = []\<rparr>"

definition emit :: "event \<Rightarrow> locals \<Rightarrow> locals" where
  "emit e l = l\<lparr>calls := calls l @ [e]\<rparr>"

text \<open>\<^verbatim>\<open>as_error_update(&err, c, m); goto CLEANUP;\<close>\<close>

definition fail_with :: "as_status \<Rightarrow> string \<Rightarrow> locals \<Rightarrow> locals" where
  "fail_with c m l = emit (Ev_as_error_update c m) (l\<lparr>err := as_error_update (err l) c m\<rparr>)"

text \<open>
  Lines 113 to 119: attach the UDF, submit the scan, clear \<^verbatim>\<open>arglist\<close>.
  \<^verbatim>\<open>as_scan_apply_each\<close> stores module, function and argument list in the descriptor
  when it returns true and leaves the descriptor alone when it returns false.
\<close>

definition ScanApply_submit :: "env \<Rightarrow> aerospike \<Rightarrow> as_scan \<Rightarrow> string \<Rightarrow> string \<Rightarrow> locals \<Rightarrow> locals" where
  "ScanApply_submit E a s module_p function_p l =
     (let ok = as_scan_apply_each_ok E s module_p function_p (arglist l);
          l1 = emit (Ev_as_scan_apply_each module_p function_p (arglist l) ok) l
      in if \<not> ok then fail_with AEROSPIKE_ERR_PARAM ''Unable to apply UDF on the scan'' l1
         else
           (let s1 = s\<lparr>apply_each := Some (module_p, function_p, arglist l)\<rparr>;
                (e1, sid) = aerospike_scan_background E a (err l1) (scan_policy_p l1) s1
            in (emit (Ev_aerospike_scan_background s1 e1 sid) l1)
                 \<lparr>scan := Some s1, err := e1, scan_id := sid, arglist := None\<rparr>))"

text \<open>Lines 100 to 111: the options, then the conversion of the argument list.\<close>

definition ScanApply_arguments ::
  "env \<Rightarrow> aerospike \<Rightarrow> as_scan \<Rightarrow> string \<Rightarrow> string \<Rightarrow> py_object \<Rightarrow> py_object option \<Rightarrow> locals \<Rightarrow> locals" where
  "ScanApply_arguments E a s module_p function_p py_args py_options l =
     (let (s1, l1) =
            (case py_options of
               None \<Rightarrow> (s, l)
             | Some o1 \<Rightarrow>
                 (let (e1, opts) = set_scan_options E (err l) s o1;
                      s' = s\<lparr>scan_opts := Some opts\<rparr>
                  in (s', (emit (Ev_set_scan_options o1 e1) l)\<lparr>err := e1, scan := Some s'\<rparr>)))
      in if code (err l1) \<noteq> AEROSPIKE_OK then l1
         else
           (let (e2, al) = pyobject_to_list E (err l1) py_args;
                l2 = (emit (Ev_pyobject_to_list py_args e2 al) l1)\<lparr>err := e2, arglist := al\<rparr>
            in if code (err l2) \<noteq> AEROSPIKE_OK then l2
               else ScanApply_submit E a s1 module_p function_p l2))"

text \<open>Lines 86 to 98: the optional policy.\<close>

definition ScanApply_policy :: "env \<Rightarrow> py_object option \<Rightarrow> locals \<Rightarrow> locals" where
  "ScanApply_policy E py_policy l =
     (case py_policy of
        None \<Rightarrow> l
      | Some p \<Rightarrow>
          (let e1 = validate_policy_scan E (err l) p;
               l1 = (emit (Ev_validate_policy_scan p e1) l)\<lparr>err := e1\<rparr>
           in if code (err l1) \<noteq> AEROSPIKE_OK then l1
              else
                (let (e2, pp) = pyobject_to_policy_scan E (err l1) p
                 in (emit (Ev_pyobject_to_policy_scan p e2) l1)\<lparr>err := e2, scan_policy_p := pp\<rparr>)))"

text \<open>Lines 57 to 119: everything before the label \<^verbatim>\<open>CLEANUP\<close>.\<close>

definition ScanApply_build ::
  "env \<Rightarrow> AerospikeClient option \<Rightarrow> string option \<Rightarrow> string option \<Rightarrow> string option \<Rightarrow> string option
     \<Rightarrow> py_object \<Rightarrow> py_object option \<Rightarrow> py_object option \<Rightarrow> locals" where
  "ScanApply_build E self namespace_p set_p module_p function_p py_args py_policy py_options =
     (case client_handle self of
        None \<Rightarrow> fail_with AEROSPIKE_ERR_PARAM ''Invalid aerospike object'' locals_init
      | Some a \<Rightarrow>
          (case (namespace_p, set_p, module_p, function_p) of
             (Some ns, Some st, Some md, Some fn) \<Rightarrow>
               if \<not> PyList_Check py_args
               then fail_with AEROSPIKE_ERR_PARAM ''Arguments should be a list'' locals_init
               else
                 (let s = as_scan_init ns st;
                      l1 = (emit (Ev_as_scan_init ns st) locals_init)
                             \<lparr>scan := Some s, is_scan_init := True\<rparr>;
                      l2 = ScanApply_policy E py_policy l1
                  in if code (err l2) \<noteq> AEROSPIKE_OK then l2
                     else ScanApply_arguments E a s md fn py_args py_options l2)
           | _ \<Rightarrow> fail_with AEROSPIKE_ERR_PARAM ''Parameter should not be null'' locals_init))"

text \<open>Lines 121 to 139: the code after the label.\<close>

definition ScanApply_cleanup :: "locals \<Rightarrow> call_result" where
  "ScanApply_cleanup l =
     (let l1 = (case arglist l of None \<Rightarrow> l | Some al \<Rightarrow> emit (Ev_as_list_destroy al) l);
          l2 = (if is_scan_init l1 then emit (Ev_as_scan_destroy (scan l1)) l1 else l1)
      in if code (err l2) \<noteq> AEROSPIKE_OK
         then \<lparr>retval = None, raised = Some (AerospikeError (err l2)),
               trace = calls l2 @ [Ev_PyErr_SetObject (err l2)]\<rparr>
         else \<lparr>retval = Some (PyLong_FromLong_u64 (scan_id l2)), raised = None, trace = calls l2\<rparr>)"

definition AerospikeClient_ScanApply_Invoke ::
  "env \<Rightarrow> AerospikeClient option \<Rightarrow> string option \<Rightarrow> string option \<Rightarrow> string option \<Rightarrow> string option
     \<Rightarrow> py_object \<Rightarrow> py_object option \<Rightarrow> py_object option \<Rightarrow> call_result" where
  "AerospikeClient_ScanApply_Invoke E self namespace_p set_p module_p function_p py_args py_policy py_options =
     ScanApply_cleanup
       (ScanApply_build E self namespace_p set_p module_p function_p py_args py_policy py_options)"

subsection \<open>AerospikeClient_ScanApply\<close>

definition AerospikeClient_ScanApply ::
  "env \<Rightarrow> AerospikeClient option \<Rightarrow> py_object \<Rightarrow> py_object option \<Rightarrow> call_result" where
  "AerospikeClient_ScanApply E self args kwds =
     (case parse_scan_apply E args kwds of
        None \<Rightarrow> \<lparr>retval = None, raised = Some ArgumentError,
                 trace = [Ev_PyArg_ParseTupleAndKeywords False]\<rparr>
      | Some p \<Rightarrow>
          (let r = AerospikeClient_ScanApply_Invoke E self (Some (arg_ns p)) (Some (arg_set p))
                     (Some (arg_module p)) (Some (arg_function p)) (arg_args p) (arg_policy p)
                     (arg_options p)
           in r\<lparr>trace := Ev_PyArg_ParseTupleAndKeywords True # trace r\<rparr>))"

subsection \<open>AerospikeClient_ScanInfo\<close>

text \<open>
  The local variables of the function, the exception pending in the interpreter
  (\<open>info_exc\<close>), and the trace.
\<close>

record info_locals =
  info_err :: as_error
  retObj :: "py_object option"
  info_policy_p :: "as_policy_info option"
  info_exc :: "py_exception option"
  info_calls :: "event list"

definition info_emit :: "event \<Rightarrow> info_locals \<Rightarrow> info_locals" where
  "info_emit e l = l\<lparr>info_calls := info_calls l @ [e]\<rparr>"

text \<open>
  Lines 193 to 197: \<^verbatim>\<open>as_error_init(&err)\<close> and \<^verbatim>\<open>retObj = PyDict_New()\<close>. A failed
  allocation gives the null pointer and leaves \<open>MemoryError\<close> pending.
\<close>

definition info_locals_init :: "env \<Rightarrow> info_locals" where
  "info_locals_init E =
     \<lparr>info_err = as_error_init,
      retObj = (if PyDict_New_ok E then Some (PyDict []) else None),
      info_policy_p = None,
      info_exc = (if PyDict_New_ok E then None else Some MemoryError),
      info_calls = [Ev_PyDict_New (PyDict_New_ok E)]\<rparr>"

text \<open>
  Lines 235 to 247: the three entries of the dictionary, when there is one. The sum
  \<^verbatim>\<open>scan_info.status + AS_SCAN_STATUS\<close> is an \<^verbatim>\<open>unsigned int\<close> addition: it wraps at
  \<open>2 ^ 32\<close>, and \<^verbatim>\<open>PyLong_FromLong\<close> gets the value of that \<^verbatim>\<open>unsigned int\<close>.
\<close>

definition ScanInfo_fill :: "env \<Rightarrow> as_scan_info \<Rightarrow> py_object \<Rightarrow> py_object" where
  "ScanInfo_fill E scan_info d =
     (let d1 = PyDict_SetItemString d PROGRESS_PCT (PyLong_FromLong_u32 (progress_pct scan_info));
          d2 = PyDict_SetItemString d1 RECORDS_SCANNED (PyLong_FromLong_u32 (records_scanned scan_info))
      in PyDict_SetItemString d2 STATUS (PyLong_FromLong_u32 (status scan_info + AS_SCAN_STATUS E)))"

text \<open>
  Lines 213 to 247: everything between the argument parsing and the label
  \<^verbatim>\<open>CLEANUP\<close>. The policy is validated only when it is there; it is converted in
  both cases. The \<^verbatim>\<open>long\<close> job identifier is passed on as \<^verbatim>\<open>uint64_t\<close>, the same
  64 bits.
\<close>

definition ScanInfo_query ::
  "env \<Rightarrow> AerospikeClient option \<Rightarrow> 64 word \<Rightarrow> py_object option \<Rightarrow> info_locals \<Rightarrow> info_locals" where
  "ScanInfo_query E self lscanId py_policy l =
     (case client_handle self of
        None \<Rightarrow>
          info_emit (Ev_as_error_update AEROSPIKE_ERR_PARAM ''Invalid aerospike object'')
            (l\<lparr>info_err := as_error_update (info_err l) AEROSPIKE_ERR_PARAM ''Invalid aerospike object''\<rparr>)
      | Some a \<Rightarrow>
          (let l1 = (case py_policy of
                       None \<Rightarrow> l
                     | Some p \<Rightarrow>
                         (let e1 = validate_policy_scan E (info_err l) p
                          in (info_emit (Ev_validate_policy_scan p e1) l)\<lparr>info_err := e1\<rparr>))
           in if code (info_err l1) \<noteq> AEROSPIKE_OK then l1
              else
                (let (e2, pp) = pyobject_to_policy_info E (info_err l1) py_policy;
                     l2 = (info_emit (Ev_pyobject_to_policy_info py_policy e2) l1)
                            \<lparr>info_err := e2, info_policy_p := pp\<rparr>
                 in if code (info_err l2) \<noteq> AEROSPIKE_OK then l2
                    else
                      (let (st, e3, scan_info) =
                             aerospike_scan_info E a (info_err l2) (info_policy_p l2) lscanId;
                           l3 = (info_emit (Ev_aerospike_scan_info lscanId st e3 scan_info) l2)
                                  \<lparr>info_err := e3\<rparr>
                       in if AEROSPIKE_OK \<noteq> st then l3
                          else
                            (case retObj l3 of
                               None \<Rightarrow> l3
                             | Some d \<Rightarrow> l3\<lparr>retObj := Some (ScanInfo_fill E scan_info d)\<rparr>)))))"

text \<open>
  Lines 249 to 259: the code after the label. \<^verbatim>\<open>PyErr_SetObject\<close> replaces whatever
  exception is pending; without it the pending exception stays.
\<close>

definition ScanInfo_cleanup :: "info_locals \<Rightarrow> call_result" where
  "ScanInfo_cleanup l =
     (if code (info_err l) \<noteq> AEROSPIKE_OK
      then \<lparr>retval = None, raised = Some (AerospikeError (info_err l)),
            trace = info_calls l @ [Ev_PyErr_SetObject (info_err l)]\<rparr>
      else \<lparr>retval = retObj l, raised = info_exc l, trace = info_calls l\<rparr>)"

text \<open>
  The whole function. When the parser fails the function returns null at once
  (line 210), past the label, with the parser's exception pending.
\<close>

definition AerospikeClient_ScanInfo ::
  "env \<Rightarrow> AerospikeClient option \<Rightarrow> py_object \<Rightarrow> py_object option \<Rightarrow> call_result" where
  "AerospikeClient_ScanInfo E self args kwds =
     (let l0 = info_locals_init E
      in case parse_scan_info E args kwds of
           None \<Rightarrow> \<lparr>retval = None, raised = Some ArgumentError,
                    trace = info_calls l0 @ [Ev_PyArg_ParseTupleAndKeywords False]\<rparr>
         | Some p \<Rightarrow>
             ScanInfo_cleanup
               (ScanInfo_query E self (arg_scanid p) (arg_info_policy p)
                  (info_emit (Ev_PyArg_ParseTupleAndKeywords True) l0)))"

subsection \<open>Reading a trace\<close>

text \<open>The two calls that reach the store over the network.\<close>

fun is_network :: "event \<Rightarrow> bool" where
  "is_network (Ev_aerospike_scan_background s e sid) = True"
| "is_network (Ev_aerospike_scan_info sid st e info) = True"
| "is_network ev = False"

fun is_pyobject_to_list :: "event \<Rightarrow> bool" where
  "is_pyobject_to_list (Ev_pyobject_to_list p e al) = True"
| "is_pyobject_to_list ev = False"

fun is_as_scan_init :: "event \<Rightarrow> bool" where
  "is_as_scan_init (Ev_as_scan_init ns st) = True"
| "is_as_scan_init ev = False"

fun is_as_scan_destroy :: "event \<Rightarrow> bool" where
  "is_as_scan_destroy (Ev_as_scan_destroy s) = True"
| "is_as_scan_destroy ev = False"

fun is_as_list_destroy :: "event \<Rightarrow> bool" where
  "is_as_list_destroy (Ev_as_list_destroy al) = True"
| "is_as_list_destroy ev = False"

fun is_attached :: "event \<Rightarrow> bool" where
  "is_attached (Ev_as_scan_apply_each md fn al ok) = ok"
| "is_attached ev = False"



text \<open>The calls after the label \<^verbatim>\<open>CLEANUP\<close>.\<close>

fun is_cleanup :: "event \<Rightarrow> bool" where
  "is_cleanup (Ev_as_list_destroy al) = True"
| "is_cleanup (Ev_as_scan_destroy s) = True"
| "is_cleanup (Ev_PyErr_SetObject e) = True"
| "is_cleanup ev = False"

text \<open>
  The argument lists a call brings into being (\<^verbatim>\<open>pyobject_to_list\<close> storing a non-null
  pointer) and the ones a call releases: \<^verbatim>\<open>as_list_destroy\<close> releases its argument,
  \<^verbatim>\<open>as_scan_destroy\<close> releases the argument list attached to the descriptor.
\<close>

fun created :: "event \<Rightarrow> as_list list" where
  "created (Ev_pyobject_to_list p e (Some al)) = [al]"
| "created ev = []"

fun attached_list :: "as_scan \<Rightarrow> as_list list" where
  "attached_list s = (case apply_each s of Some (md, fn, Some al) \<Rightarrow> [al] | _ \<Rightarrow> [])"

fun released :: "event \<Rightarrow> as_list list" where
  "released (Ev_as_list_destroy al) = [al]"
| "released (Ev_as_scan_destroy (Some s)) = attached_list s"
| "released ev = []"

text \<open>
  The error a step leaves behind, when it leaves one: \<^verbatim>\<open>as_error_update\<close> with a code
  other than \<^verbatim>\<open>AEROSPIKE_OK\<close>, or a collaborator that returns with such a code in
  \<^verbatim>\<open>err\<close>.
\<close>

definition error_if_set :: "as_error \<Rightarrow> as_error option" where
  "error_if_set e = (if code e \<noteq> AEROSPIKE_OK then Some e else None)"

fun step_error :: "event \<Rightarrow> as_error option" where
  "step_error (Ev_as_error_update c m) = error_if_set \<lparr>code = c, message = m\<rparr>"
| "step_error (Ev_validate_policy_scan p e) = error_if_set e"
| "step_error (Ev_pyobject_to_policy_scan p e) = error_if_set e"
| "step_error (Ev_pyobject_to_policy_info p e) = error_if_set e"
| "step_error (Ev_set_scan_options p e) = error_if_set e"
| "step_error (Ev_pyobject_to_list p e al) = error_if_set e"
| "step_error (Ev_aerospike_scan_background s e sid) = error_if_set e"
| "step_error (Ev_aerospike_scan_info sid st e info) = error_if_set e"
| "step_error ev = None"

text \<open>The first step of a trace that leaves an error, with the calls made after it.\<close>

fun first_failure :: "event list \<Rightarrow> (as_error \<times> event list) option" where
  "first_failure [] = None"
| "first_failure (ev # evs) =
     (case step_error ev of Some e \<Rightarrow> Some (e, evs) | None \<Rightarrow> first_failure evs)"

text \<open>The policy handling in a trace: which object was validated, which converted.\<close>

datatype policy_step = Validated py_object | Converted py_object

fun policy_step_of :: "event \<Rightarrow> policy_step list" where
  "policy_step_of (Ev_validate_policy_scan p e) = [Validated p]"
| "policy_step_of (Ev_pyobject_to_policy_scan p e) = [Converted p]"
| "policy_step_of (Ev_pyobject_to_policy_info (Some p) e) = [Converted p]"
| "policy_step_of ev = []"

definition policy_steps :: "event list \<Rightarrow> policy_step list" where
  "policy_steps t = concat (map policy_step_of t)"

text \<open>A store query that returned without an error in \<^verbatim>\<open>err\<close>.\<close>

fun query_left_no_error :: "event \<Rightarrow> bool" where
  "query_left_no_error (Ev_aerospike_scan_info sid st e info) = (code e = AEROSPIKE_OK)"
| "query_left_no_error ev = False"




text \<open>The error a call raised through \<^verbatim>\<open>PyErr_SetObject\<close>.\<close>

fun error_of :: "call_result \<Rightarrow> as_error option" where
  "error_of r = (case raised r of Some (AerospikeError e) \<Rightarrow> Some e | _ \<Rightarrow> None)"

subsection \<open>Invariants of the local variables\<close>

text \<open>
  The error in \<^verbatim>\<open>err\<close> is the one left by the first step that failed, and no call
  was made after that step; when no step failed, \<^verbatim>\<open>err\<close> holds no error.
\<close>

definition err_is_first_failure :: "locals \<Rightarrow> bool" where
  "err_is_first_failure l =
     (first_failure (calls l) = (if code (err l) = AEROSPIKE_OK then None else Some (err l, [])))"

text \<open>
  The argument lists created and released in a trace, and the ones the locals still
  hold: through \<^verbatim>\<open>arglist\<close>, or attached to the descriptor.
\<close>

definition created_in :: "event list \<Rightarrow> as_list list" where
  "created_in t = concat (map created t)"

definition released_in :: "event list \<Rightarrow> as_list list" where
  "released_in t = concat (map released t)"

definition held :: "locals \<Rightarrow> as_list list" where
  "held l = (case arglist l of Some al \<Rightarrow> [al] | None \<Rightarrow> [])
            @ (case scan l of Some s \<Rightarrow> attached_list s | None \<Rightarrow> [])"

text \<open>
  Before the label \<^verbatim>\<open>CLEANUP\<close> nothing has been released, the lists created are the
  lists held (at most one), the flag \<^verbatim>\<open>is_scan_init\<close> says whether \<^verbatim>\<open>as_scan_init\<close> ran,
  and \<^verbatim>\<open>arglist\<close> is null once the list is attached.
\<close>

definition resources_accounted :: "locals \<Rightarrow> bool" where
  "resources_accounted l =
     (released_in (calls l) = [] \<and> created_in (calls l) = held l \<and> length (held l) \<le> 1
      \<and> filter is_as_scan_destroy (calls l) = []
      \<and> filter is_as_list_destroy (calls l) = []
      \<and> is_scan_init l = list_ex is_as_scan_init (calls l)
      \<and> is_scan_init l = (scan l \<noteq> None)
      \<and> (if list_ex is_attached (calls l) then arglist l = None
          else (case scan l of Some s \<Rightarrow> attached_list s = [] | None \<Rightarrow> True)))"

text \<open>The same, right after \<^verbatim>\<open>as_scan_init\<close>: no list yet, nothing attached.\<close>

definition fresh_scan :: "as_scan \<Rightarrow> locals \<Rightarrow> bool" where
  "fresh_scan s l =
     (resources_accounted l \<and> scan l = Some s \<and> arglist l = None \<and> apply_each s = None
      \<and> \<not> list_ex is_attached (calls l))"

subsection \<open>A store that accepts everything, for concrete runs\<close>

text \<open>
  The store issues job 42 and reports 55 percent, 1000 records, raw status 1; the
  offset is 100. The parsers accept a tuple of the positional arguments.
\<close>

definition fake_list :: "as_error \<Rightarrow> py_object \<Rightarrow> as_error \<times> as_list option" where
  "fake_list e p = (case p of PyList xs \<Rightarrow> (e, Some (As_list xs)) | _ \<Rightarrow> (e, None))"

definition fake_parse_apply :: "py_object \<Rightarrow> py_object option \<Rightarrow> scan_apply_args option" where
  "fake_parse_apply args kwds =
     (case args of
        PyTuple [PyStr ns, PyStr st, PyStr md, PyStr fn, a] \<Rightarrow>
          Some \<lparr>arg_ns = ns, arg_set = st, arg_module = md, arg_function = fn, arg_args = a,
                arg_policy = None, arg_options = None\<rparr>
      | _ \<Rightarrow> None)"

definition fake_parse_info :: "py_object \<Rightarrow> py_object option \<Rightarrow> scan_info_args option" where
  "fake_parse_info args kwds =
     (case args of
        PyTuple [PyLong n] \<Rightarrow> Some \<lparr>arg_scanid = word_of_int n, arg_info_policy = None\<rparr>
      | PyTuple [PyLong n, p] \<Rightarrow> Some \<lparr>arg_scanid = word_of_int n, arg_info_policy = Some p\<rparr>
      | _ \<Rightarrow> None)"

definition fake_info :: as_scan_info where
  "fake_info = \<lparr>status = 1, progress_pct = 55, records_scanned = 1000\<rparr>"

definition fake_env :: env where
  "fake_env =
     \<lparr>validate_policy_scan = (\<lambda>e p. e),
      pyobject_to_policy_scan = (\<lambda>e p. (e, Some (As_policy_scan 0))),
      pyobject_to_policy_info = (\<lambda>e p. (e, None)),
      set_scan_options = (\<lambda>e s p. (e, \<lparr>percent = 100, priority = 0, nobins = False, concurrent = False\<rparr>)),
      pyobject_to_list = fake_list,
      as_scan_apply_each_ok = (\<lambda>s md fn al. True),
      aerospike_scan_background = (\<lambda>a e p s. (e, 42)),
      aerospike_scan_info = (\<lambda>a e p sid. (AEROSPIKE_OK, e, fake_info)),
      PyDict_New_ok = True,
      AS_SCAN_STATUS = 100,
      parse_scan_apply = fake_parse_apply,
      parse_scan_info = fake_parse_info\<rparr>"

text \<open>The same store when \<^verbatim>\<open>PyDict_New\<close> fails.\<close>

definition fake_env_no_dict :: env where
  "fake_env_no_dict = fake_env\<lparr>PyDict_New_ok := False\<rparr>"

text \<open>The same store issuing the job identifier \<open>2 ^ 63\<close>.\<close>

definition fake_env_big_id :: env where
  "fake_env_big_id = fake_env\<lparr>aerospike_scan_background := (\<lambda>a e p s. (e, 2 ^ 63))\<rparr>"

text \<open>The same store with a validator that rejects every policy.\<close>

definition bad_policy :: as_error where
  "bad_policy = \<lparr>code = AEROSPIKE_ERR_PARAM, message = ''policy must be a dict''\<rparr>"

definition fake_env_bad_policy :: env where
  "fake_env_bad_policy = fake_env\<lparr>validate_policy_scan := (\<lambda>e p. bad_policy)\<rparr>"

text \<open>The same store with a converter that fails and leaves a list behind.\<close>

definition bad_list :: as_error where
  "bad_list = \<lparr>code = AEROSPIKE_ERR_OTHER 1, message = ''unsupported type''\<rparr>"

definition fake_env_bad_list :: env where
  "fake_env_bad_list = fake_env\<lparr>pyobject_to_list := (\<lambda>e p. (bad_list, Some (As_list [])))\<rparr>"

text \<open>The same store reporting the raw status \<open>2 ^ 32 - 1\<close>.\<close>

definition wrap_info :: as_scan_info where
  "wrap_info = \<lparr>status = 4294967295, progress_pct = 55, records_scanned = 1000\<rparr>"

definition fake_env_wrap_status :: env where
  "fake_env_wrap_status =
     fake_env\<lparr>aerospike_scan_info := (\<lambda>a e p sid. (AEROSPIKE_OK, e, wrap_info))\<rparr>"

text \<open>
  The same store with a query that returns a failure and leaves the error it was
  given untouched.
\<close>

definition fake_env_silent_failure :: env where
  "fake_env_silent_failure =
     fake_env\<lparr>aerospike_scan_info := (\<lambda>a e p sid. (AEROSPIKE_ERR_OTHER 1, e, fake_info))\<rparr>"

text \<open>
  Another client library and another process: other policy helpers, another
  converter, another identifier for new jobs; the store answers the query as before.
\<close>

definition fake_env_other :: env where
  "fake_env_other =
     fake_env\<lparr>validate_policy_scan := (\<lambda>e p. e\<lparr>message := ''checked''\<rparr>),
              pyobject_to_policy_info := (\<lambda>e p. (e\<lparr>message := []\<rparr>, Some (As_policy_info 7))),
              aerospike_scan_background := (\<lambda>a e p s. (e, 7)),
              aerospike_scan_info := (\<lambda>a e p sid. (AEROSPIKE_OK, as_error_init, fake_info))\<rparr>"

definition other_client :: "AerospikeClient option" where
  "other_client = Some \<lparr>as = Some (Aerospike 1)\<rparr>"

definition fake_client :: "AerospikeClient option" where
  "fake_client = Some \<lparr>as = Some (Aerospike 0)\<rparr>"

subsection \<open>Unfolding\<close>

lemmas ScanApply_defs =
  AerospikeClient_ScanApply_Invoke_def ScanApply_build_def ScanApply_cleanup_def
  ScanApply_policy_def ScanApply_arguments_def ScanApply_submit_def emit_def fail_with_def
  locals_init_def as_error_init_def as_error_update_def as_scan_init_def
  PyLong_FromLong_u64_def

lemmas ScanInfo_defs =
  AerospikeClient_ScanInfo_def ScanInfo_cleanup_def ScanInfo_query_def ScanInfo_fill_def
  info_locals_init_def info_emit_def as_error_init_def as_error_update_def
  PyLong_FromLong_u32_def PROGRESS_PCT_def RECORDS_SCANNED_def STATUS_def

lemmas fake_defs =
  fake_env_def fake_env_no_dict_def fake_env_big_id_def fake_env_bad_policy_def
  fake_env_bad_list_def fake_client_def fake_list_def fake_parse_apply_def fake_parse_info_def
  fake_info_def bad_policy_def bad_list_def client_handle_def wrap_info_def
  fake_env_wrap_status_def fake_env_silent_failure_def fake_env_other_def other_client_def

section \<open>Properties\<close>

subsection \<open>Shared facts about the stages\<close>

lemma as_error_eq [simp]:
  "(e::as_error)\<lparr>code := c, message := m\<rparr> = \<lparr>code = c, message = m\<rparr>"
  by (cases e) simp

lemma cleanup_trace:
  "trace (ScanApply_cleanup l) =
     calls l
     @ (case arglist l of None \<Rightarrow> [] | Some al \<Rightarrow> [Ev_as_list_destroy al])
     @ (if is_scan_init l then [Ev_as_scan_destroy (scan l)] else [])
     @ (if code (err l) \<noteq> AEROSPIKE_OK then [Ev_PyErr_SetObject (err l)] else [])"
  by (simp add: ScanApply_cleanup_def emit_def Let_def split: option.split)

lemma cleanup_retval:
  "retval (ScanApply_cleanup l) =
     (if code (err l) \<noteq> AEROSPIKE_OK then None else Some (PyLong (sint (scan_id l))))"
  by (simp add: ScanApply_cleanup_def emit_def Let_def PyLong_FromLong_u64_def split: option.split)

lemma cleanup_raised:
  "raised (ScanApply_cleanup l) =
     (if code (err l) \<noteq> AEROSPIKE_OK then Some (AerospikeError (err l)) else None)"
  by (simp add: ScanApply_cleanup_def emit_def Let_def split: option.split)

text \<open>The three early exits of \<^verbatim>\<open>AerospikeClient_ScanApply_Invoke\<close>.\<close>

lemma build_invalid_client:
  assumes "client_handle self = None"
  shows "ScanApply_build E self ns st md fn py_args pol opts =
           fail_with AEROSPIKE_ERR_PARAM ''Invalid aerospike object'' locals_init"
  using assms by (simp add: ScanApply_build_def)

lemma build_null_parameter:
  assumes "client_handle self = Some a" and "ns = None \<or> st = None \<or> md = None \<or> fn = None"
  shows "ScanApply_build E self ns st md fn py_args pol opts =
           fail_with AEROSPIKE_ERR_PARAM ''Parameter should not be null'' locals_init"
  using assms by (auto simp: ScanApply_build_def split: option.split)

lemma build_not_a_list:
  assumes "client_handle self = Some a" and "\<not> PyList_Check py_args"
  shows "ScanApply_build E self (Some ns) (Some st) (Some md) (Some fn) py_args pol opts =
           fail_with AEROSPIKE_ERR_PARAM ''Arguments should be a list'' locals_init"
  using assms by (simp add: ScanApply_build_def)

lemma invoke_fail_with:
  assumes "ScanApply_build E self ns st md fn py_args pol opts =
             fail_with AEROSPIKE_ERR_PARAM m locals_init"
  shows "AerospikeClient_ScanApply_Invoke E self ns st md fn py_args pol opts =
           \<lparr>retval = None,
            raised = Some (AerospikeError \<lparr>code = AEROSPIKE_ERR_PARAM, message = m\<rparr>),
            trace = [Ev_as_error_update AEROSPIKE_ERR_PARAM m,
                     Ev_PyErr_SetObject \<lparr>code = AEROSPIKE_ERR_PARAM, message = m\<rparr>]\<rparr>"
  by (simp add: AerospikeClient_ScanApply_Invoke_def assms ScanApply_cleanup_def fail_with_def
      emit_def locals_init_def as_error_init_def as_error_update_def)

text \<open>Every call ends in one of the three early exits or runs \<^verbatim>\<open>as_scan_init\<close>.\<close>

lemma invoke_early_exit:
  assumes "client_handle self = None \<or> ns = None \<or> st = None \<or> md = None \<or> fn = None
           \<or> \<not> PyList_Check py_args"
  shows "\<exists>m. AerospikeClient_ScanApply_Invoke E self ns st md fn py_args pol opts =
           \<lparr>retval = None,
            raised = Some (AerospikeError \<lparr>code = AEROSPIKE_ERR_PARAM, message = m\<rparr>),
            trace = [Ev_as_error_update AEROSPIKE_ERR_PARAM m,
                     Ev_PyErr_SetObject \<lparr>code = AEROSPIKE_ERR_PARAM, message = m\<rparr>]\<rparr>"
proof (cases "client_handle self")
  case None
  then show ?thesis by (blast intro: invoke_fail_with build_invalid_client)
next
  case (Some a)
  show ?thesis
  proof (cases "ns = None \<or> st = None \<or> md = None \<or> fn = None")
    case True
    with Some show ?thesis by (blast intro: invoke_fail_with build_null_parameter)
  next
    case False
    then obtain ns' st' md' fn' where "ns = Some ns'" "st = Some st'" "md = Some md'" "fn = Some fn'"
      by auto
    moreover from False Some assms have "\<not> PyList_Check py_args" by auto
    ultimately show ?thesis
      using Some by (blast intro: invoke_fail_with build_not_a_list)
  qed
qed

subsection \<open>Shared facts about scan_info\<close>

lemma scanInfo_unparsed:
  assumes "parse_scan_info E args kwds = None"
  shows "AerospikeClient_ScanInfo E self args kwds =
           \<lparr>retval = None, raised = Some ArgumentError,
            trace = [Ev_PyDict_New (PyDict_New_ok E), Ev_PyArg_ParseTupleAndKeywords False]\<rparr>"
  using assms by (simp add: AerospikeClient_ScanInfo_def info_locals_init_def)

lemma scanInfo_parsed:
  assumes "parse_scan_info E args kwds = Some p"
  shows "AerospikeClient_ScanInfo E self args kwds =
           ScanInfo_cleanup
             (ScanInfo_query E self (arg_scanid p) (arg_info_policy p)
                (info_emit (Ev_PyArg_ParseTupleAndKeywords True) (info_locals_init E)))"
  using assms by (simp add: AerospikeClient_ScanInfo_def)

lemma info_start:
  "info_calls (info_emit (Ev_PyArg_ParseTupleAndKeywords True) (info_locals_init E))
     = [Ev_PyDict_New (PyDict_New_ok E), Ev_PyArg_ParseTupleAndKeywords True]"
  "retObj (info_emit (Ev_PyArg_ParseTupleAndKeywords True) (info_locals_init E))
     = (if PyDict_New_ok E then Some (PyDict []) else None)"
  "info_exc (info_emit (Ev_PyArg_ParseTupleAndKeywords True) (info_locals_init E))
     = (if PyDict_New_ok E then None else Some MemoryError)"
  by (simp_all add: info_emit_def info_locals_init_def)

lemma info_cleanup_simps:
  "retval (ScanInfo_cleanup l) = (if code (info_err l) \<noteq> AEROSPIKE_OK then None else retObj l)"
  "raised (ScanInfo_cleanup l) =
     (if code (info_err l) \<noteq> AEROSPIKE_OK then Some (AerospikeError (info_err l)) else info_exc l)"
  "trace (ScanInfo_cleanup l) =
     info_calls l @ (if code (info_err l) \<noteq> AEROSPIKE_OK
                     then [Ev_PyErr_SetObject (info_err l)] else [])"
  by (simp_all add: ScanInfo_cleanup_def)

lemma fill_empty:
  "ScanInfo_fill E info (PyDict []) =
     PyDict [(PyStr ''progress_pct'', PyLong (uint (progress_pct info))),
             (PyStr ''records_scanned'', PyLong (uint (records_scanned info))),
             (PyStr ''status'', PyLong (uint (status info + AS_SCAN_STATUS E)))]"
  by (simp add: ScanInfo_fill_def PyLong_FromLong_u32_def PROGRESS_PCT_def RECORDS_SCANNED_def
      STATUS_def)

text \<open>What \<^verbatim>\<open>ScanInfo_query\<close> does to the locals it is given.\<close>

lemma query_exc: "info_exc (ScanInfo_query E self sid pol l) = info_exc l"
  by (auto simp: ScanInfo_query_def info_emit_def Let_def split: option.split prod.split)


lemma query_event:
  assumes "\<not> list_ex is_network (info_calls l)"
  shows "Ev_aerospike_scan_info sid' st e info
           \<in> set (info_calls (ScanInfo_query E self sid pol l)) \<longrightarrow>
         info_err (ScanInfo_query E self sid pol l) = e
         \<and> retObj (ScanInfo_query E self sid pol l)
             = (if st = AEROSPIKE_OK then map_option (ScanInfo_fill E info) (retObj l)
                else retObj l)"
  using assms
  by (auto simp: ScanInfo_query_def info_emit_def Let_def list_ex_iff
      split: option.split prod.split)

lemma query_network:
  assumes "filter is_network (info_calls l) = []"
  shows "filter is_network (info_calls (ScanInfo_query E self sid pol l)) = []
         \<or> (\<exists>st e info. filter is_network (info_calls (ScanInfo_query E self sid pol l))
                            = [Ev_aerospike_scan_info sid st e info])"
  using assms
  by (simp add: ScanInfo_query_def info_emit_def Let_def split: option.split prod.split)

lemma query_single:
  assumes "filter is_network (info_calls l) = []"
    and "Ev_aerospike_scan_info sid' st e info \<in> set (info_calls (ScanInfo_query E self sid pol l))"
  shows "filter is_network (info_calls (ScanInfo_query E self sid pol l))
           = [Ev_aerospike_scan_info sid' st e info]"
proof -
  define F where "F = filter is_network (info_calls (ScanInfo_query E self sid pol l))"
  have "Ev_aerospike_scan_info sid' st e info \<in> set F"
    using assms(2) by (simp add: F_def)
  moreover have "F = [] \<or> (\<exists>st e info. F = [Ev_aerospike_scan_info sid st e info])"
    unfolding F_def by (rule query_network [OF assms(1)])
  ultimately have "F = [Ev_aerospike_scan_info sid' st e info]"
    by auto
  then show ?thesis by (simp only: F_def)
qed

lemma query_left_no_error_network: "query_left_no_error ev \<Longrightarrow> is_network ev"
  by (cases ev) simp_all






text \<open>
  A call whose trace holds a store query: what the call returns and what is pending
  is fixed by the answer of the store, the outcome of the allocation and the
  constant.
\<close>

lemma scanInfo_query_event:
  assumes "Ev_aerospike_scan_info sid st e info
             \<in> set (trace (AerospikeClient_ScanInfo E self args kwds))"
  shows "retval (AerospikeClient_ScanInfo E self args kwds) =
           (if code e \<noteq> AEROSPIKE_OK \<or> \<not> PyDict_New_ok E then None
            else if st = AEROSPIKE_OK
            then Some (PyDict [(PyStr ''progress_pct'', PyLong (uint (progress_pct info))),
                               (PyStr ''records_scanned'', PyLong (uint (records_scanned info))),
                               (PyStr ''status'', PyLong (uint (status info + AS_SCAN_STATUS E)))])
            else Some (PyDict []))"
    and "raised (AerospikeClient_ScanInfo E self args kwds) =
           (if code e \<noteq> AEROSPIKE_OK then Some (AerospikeError e)
            else if PyDict_New_ok E then None else Some MemoryError)"
    and "filter is_network (trace (AerospikeClient_ScanInfo E self args kwds))
           = [Ev_aerospike_scan_info sid st e info]"
proof -
  obtain p where p: "parse_scan_info E args kwds = Some p"
    using assms by (cases "parse_scan_info E args kwds") (auto simp: scanInfo_unparsed)
  let ?l = "info_emit (Ev_PyArg_ParseTupleAndKeywords True) (info_locals_init E)"
  let ?q = "ScanInfo_query E self (arg_scanid p) (arg_info_policy p) ?l"
  have n: "\<not> list_ex is_network (info_calls ?l)"
    by (simp add: info_start)
  have m: "Ev_aerospike_scan_info sid st e info \<in> set (info_calls ?q)"
    using assms by (auto simp: scanInfo_parsed [OF p] info_cleanup_simps split: if_splits)
  with query_event [OF n, of sid st e info E self "arg_scanid p" "arg_info_policy p"]
  have e: "info_err ?q = e"
    and r: "retObj ?q = (if st = AEROSPIKE_OK then map_option (ScanInfo_fill E info) (retObj ?l)
                         else retObj ?l)"
    by blast+
  have f: "filter is_network (info_calls ?q) = [Ev_aerospike_scan_info sid st e info]"
    by (rule query_single) (simp add: info_start, rule m)
  show "retval (AerospikeClient_ScanInfo E self args kwds) =
           (if code e \<noteq> AEROSPIKE_OK \<or> \<not> PyDict_New_ok E then None
            else if st = AEROSPIKE_OK
            then Some (PyDict [(PyStr ''progress_pct'', PyLong (uint (progress_pct info))),
                               (PyStr ''records_scanned'', PyLong (uint (records_scanned info))),
                               (PyStr ''status'', PyLong (uint (status info + AS_SCAN_STATUS E)))])
            else Some (PyDict []))"
    by (simp add: scanInfo_parsed [OF p] info_cleanup_simps e r info_start fill_empty)
  show "raised (AerospikeClient_ScanInfo E self args kwds) =
           (if code e \<noteq> AEROSPIKE_OK then Some (AerospikeError e)
            else if PyDict_New_ok E then None else Some MemoryError)"
    by (simp add: scanInfo_parsed [OF p] info_cleanup_simps e query_exc info_start)
  show "filter is_network (trace (AerospikeClient_ScanInfo E self args kwds))
           = [Ev_aerospike_scan_info sid st e info]"
    by (simp add: scanInfo_parsed [OF p] info_cleanup_simps f)
qed




subsection \<open>The status snapshot\<close>


lemma uint_add_exact:
  fixes a b :: "32 word"
  shows "((uint a + uint b) mod 2 ^ 32 = uint a + uint b) = (uint a + uint b < 2 ^ 32)"
  using uint_add_lem [of a b] by (simp add: uint_word_ariths)




subsection \<open>Null parameters\<close>

text \<open>
  C2, as the specification states it, fails: an empty namespace is not a null pointer,
  the check of line 73 lets it through, and the scan is submitted to the store.
\<close>

theorem scanApply_empty_namespace_counterexample:
  "retval (AerospikeClient_ScanApply fake_env fake_client
             (PyTuple [PyStr [], PyStr ''demo'', PyStr ''mod'', PyStr ''fn'', PyList []]) None)
     = Some (PyLong 42)
   \<and> raised (AerospikeClient_ScanApply fake_env fake_client
             (PyTuple [PyStr [], PyStr ''demo'', PyStr ''mod'', PyStr ''fn'', PyList []]) None)
     = None
   \<and> list_ex is_network (trace (AerospikeClient_ScanApply fake_env fake_client
             (PyTuple [PyStr [], PyStr ''demo'', PyStr ''mod'', PyStr ''fn'', PyList []]) None))"
  by (simp add: AerospikeClient_ScanApply_def ScanApply_defs fake_defs Let_def)

text \<open>
  C2, amended. Whenever one of namespace, set, module and function is a null pointer,
  \<^verbatim>\<open>AerospikeClient_ScanApply_Invoke\<close> returns null, raises an error with the code
  \<^verbatim>\<open>AEROSPIKE_ERR_PARAM\<close> and makes no call to the store; when the client handle is
  valid, the error is \<^verbatim>\<open>AEROSPIKE_ERR_PARAM\<close> with the message
  \<^verbatim>\<open>Parameter should not be null\<close>.
\<close>

theorem scanApply_null_parameter:
  assumes "namespace_p = None \<or> set_p = None \<or> module_p = None \<or> function_p = None"
  shows "retval (AerospikeClient_ScanApply_Invoke E self namespace_p set_p module_p function_p
                   py_args py_policy py_options) = None
       \<and> map_option code (error_of (AerospikeClient_ScanApply_Invoke E self namespace_p set_p
                   module_p function_p py_args py_policy py_options)) = Some AEROSPIKE_ERR_PARAM
       \<and> \<not> list_ex is_network (trace (AerospikeClient_ScanApply_Invoke E self namespace_p set_p
                   module_p function_p py_args py_policy py_options))
       \<and> (client_handle self \<noteq> None \<longrightarrow>
            error_of (AerospikeClient_ScanApply_Invoke E self namespace_p set_p module_p function_p
                   py_args py_policy py_options)
              = Some \<lparr>code = AEROSPIKE_ERR_PARAM, message = ''Parameter should not be null''\<rparr>)"
proof (cases "client_handle self")
  case None
  then show ?thesis
    by (simp add: invoke_fail_with [OF build_invalid_client])
next
  case (Some a)
  then show ?thesis
    using assms by (simp add: invoke_fail_with [OF build_null_parameter])
qed

theorem scanApply_null_parameter_witness:
  "retval (AerospikeClient_ScanApply_Invoke fake_env fake_client None (Some ''demo'') (Some ''mod'')
             (Some ''fn'') (PyList []) None None) = None
   \<and> error_of (AerospikeClient_ScanApply_Invoke fake_env fake_client None (Some ''demo'')
             (Some ''mod'') (Some ''fn'') (PyList []) None None)
       = Some \<lparr>code = AEROSPIKE_ERR_PARAM, message = ''Parameter should not be null''\<rparr>
   \<and> \<not> list_ex is_network (trace (AerospikeClient_ScanApply_Invoke fake_env fake_client None
             (Some ''demo'') (Some ''mod'') (Some ''fn'') (PyList []) None None))"
  using scanApply_null_parameter [of None "Some ''demo''" "Some ''mod''" "Some ''fn''" fake_env
      fake_client "PyList []" None None]
  by (simp add: fake_client_def client_handle_def)

subsection \<open>Arguments that are not a list\<close>

text \<open>
  C7, as the specification states it, fails on the message: with a valid client and
  four names, an integer as \<^verbatim>\<open>args\<close> is refused with the message
  \<^verbatim>\<open>Arguments should be a list\<close>, which is not the string of the specification.
\<close>

theorem scanApply_args_message_counterexample:
  "map_option message (error_of (AerospikeClient_ScanApply_Invoke fake_env fake_client
       (Some ''test'') (Some ''demo'') (Some ''mod'') (Some ''fn'') (PyLong 5) None None))
     = Some ''Arguments should be a list''
   \<and> map_option message (error_of (AerospikeClient_ScanApply_Invoke fake_env fake_client
       (Some ''test'') (Some ''demo'') (Some ''mod'') (Some ''fn'') (PyLong 5) None None))
     \<noteq> Some ''arguments should be a list''"
  by (simp add: ScanApply_defs fake_defs Let_def)

text \<open>
  C7, amended. Whenever \<^verbatim>\<open>args\<close> is not a list, \<^verbatim>\<open>AerospikeClient_ScanApply_Invoke\<close>
  returns null, raises an error with the code \<^verbatim>\<open>AEROSPIKE_ERR_PARAM\<close> and never calls
  \<^verbatim>\<open>pyobject_to_list\<close>; when the client handle is valid and the four names are not
  null, the message is \<^verbatim>\<open>Arguments should be a list\<close>.
\<close>

theorem scanApply_args_not_a_list:
  assumes "\<not> PyList_Check py_args"
  shows "retval (AerospikeClient_ScanApply_Invoke E self namespace_p set_p module_p function_p
                   py_args py_policy py_options) = None
       \<and> map_option code (error_of (AerospikeClient_ScanApply_Invoke E self namespace_p set_p
                   module_p function_p py_args py_policy py_options)) = Some AEROSPIKE_ERR_PARAM
       \<and> \<not> list_ex is_pyobject_to_list (trace (AerospikeClient_ScanApply_Invoke E self
                   namespace_p set_p module_p function_p py_args py_policy py_options))
       \<and> (client_handle self \<noteq> None \<and> namespace_p \<noteq> None \<and> set_p \<noteq> None \<and> module_p \<noteq> None
            \<and> function_p \<noteq> None \<longrightarrow>
            error_of (AerospikeClient_ScanApply_Invoke E self namespace_p set_p module_p function_p
                   py_args py_policy py_options)
              = Some \<lparr>code = AEROSPIKE_ERR_PARAM, message = ''Arguments should be a list''\<rparr>)"
proof -
  obtain m where r: "AerospikeClient_ScanApply_Invoke E self namespace_p set_p module_p function_p
                   py_args py_policy py_options =
           \<lparr>retval = None,
            raised = Some (AerospikeError \<lparr>code = AEROSPIKE_ERR_PARAM, message = m\<rparr>),
            trace = [Ev_as_error_update AEROSPIKE_ERR_PARAM m,
                     Ev_PyErr_SetObject \<lparr>code = AEROSPIKE_ERR_PARAM, message = m\<rparr>]\<rparr>"
    using invoke_early_exit [of self namespace_p set_p module_p function_p py_args] assms by blast
  have "error_of (AerospikeClient_ScanApply_Invoke E self namespace_p set_p module_p function_p
                   py_args py_policy py_options)
              = Some \<lparr>code = AEROSPIKE_ERR_PARAM, message = ''Arguments should be a list''\<rparr>"
    if "client_handle self \<noteq> None \<and> namespace_p \<noteq> None \<and> set_p \<noteq> None \<and> module_p \<noteq> None
            \<and> function_p \<noteq> None"
  proof -
    from that obtain a ns st md fn where "client_handle self = Some a" "namespace_p = Some ns"
      "set_p = Some st" "module_p = Some md" "function_p = Some fn"
      by auto
    then show ?thesis
      using assms by (simp add: invoke_fail_with [OF build_not_a_list])
  qed
  then show ?thesis
    by (simp add: r)
qed

theorem scanApply_args_not_a_list_witness:
  "retval (AerospikeClient_ScanApply_Invoke fake_env fake_client (Some ''test'') (Some ''demo'')
             (Some ''mod'') (Some ''fn'') (PyDict []) None None) = None
   \<and> error_of (AerospikeClient_ScanApply_Invoke fake_env fake_client (Some ''test'')
             (Some ''demo'') (Some ''mod'') (Some ''fn'') (PyDict []) None None)
       = Some \<lparr>code = AEROSPIKE_ERR_PARAM, message = ''Arguments should be a list''\<rparr>
   \<and> \<not> list_ex is_pyobject_to_list (trace (AerospikeClient_ScanApply_Invoke fake_env fake_client
             (Some ''test'') (Some ''demo'') (Some ''mod'') (Some ''fn'') (PyDict []) None None))"
  using scanApply_args_not_a_list [of "PyDict []" fake_env fake_client "Some ''test''"
      "Some ''demo''" "Some ''mod''" "Some ''fn''" None None]
  by (simp add: fake_client_def client_handle_def)

subsection \<open>The first failure wins\<close>

lemma first_failure_append:
  "first_failure (xs @ ys) =
     (case first_failure xs of Some (e, rest) \<Rightarrow> Some (e, rest @ ys) | None \<Rightarrow> first_failure ys)"
  by (induction xs) (auto split: option.split)

lemma eff_submit:
  assumes "err_is_first_failure l" and "code (err l) = AEROSPIKE_OK"
  shows "err_is_first_failure (ScanApply_submit E a s md fn l)"
  using assms
  by (simp add: err_is_first_failure_def ScanApply_submit_def fail_with_def emit_def
      as_error_update_def first_failure_append error_if_set_def Let_def split: prod.split)

lemma eff_arguments:
  assumes "err_is_first_failure l" and "code (err l) = AEROSPIKE_OK"
  shows "err_is_first_failure (ScanApply_arguments E a s md fn py_args opts l)"
  using assms
  apply (simp add: ScanApply_arguments_def Let_def split: option.split prod.split)
  apply (intro conjI impI allI eff_submit)
  apply (simp_all add: err_is_first_failure_def emit_def first_failure_append error_if_set_def)
  done

lemma eff_policy:
  assumes "err_is_first_failure l" and "code (err l) = AEROSPIKE_OK"
  shows "err_is_first_failure (ScanApply_policy E pol l)"
  using assms
  by (simp add: err_is_first_failure_def ScanApply_policy_def emit_def
      first_failure_append error_if_set_def Let_def split: prod.split option.split)

lemma eff_build:
  "err_is_first_failure (ScanApply_build E self ns st md fn py_args pol opts)"
proof -
  have init:
    "err_is_first_failure
       ((emit (Ev_as_scan_init x y) locals_init)\<lparr>scan := Some s, is_scan_init := True\<rparr>)"
    "code (err ((emit (Ev_as_scan_init x y) locals_init)\<lparr>scan := Some s, is_scan_init := True\<rparr>))
       = AEROSPIKE_OK" for x y s
    by (simp_all add: err_is_first_failure_def emit_def locals_init_def as_error_init_def)
  have fail: "err_is_first_failure (fail_with AEROSPIKE_ERR_PARAM m locals_init)" for m
    by (simp add: err_is_first_failure_def fail_with_def emit_def locals_init_def
        as_error_init_def as_error_update_def error_if_set_def)
  show ?thesis
    unfolding ScanApply_build_def Let_def
    by (auto split: option.split simp: fail eff_policy [OF init]
        intro!: eff_arguments eff_policy [OF init])
qed

lemma eff_cleanup:
  assumes "err_is_first_failure l"
  shows "case first_failure (trace (ScanApply_cleanup l)) of
           None \<Rightarrow> raised (ScanApply_cleanup l) = None \<and> retval (ScanApply_cleanup l) \<noteq> None
         | Some (e, rest) \<Rightarrow>
             raised (ScanApply_cleanup l) = Some (AerospikeError e)
             \<and> retval (ScanApply_cleanup l) = None \<and> list_all is_cleanup rest"
  using assms
  by (cases "arglist l")
     (simp_all add: cleanup_trace cleanup_retval cleanup_raised err_is_first_failure_def
        first_failure_append)

text \<open>
  C6. The three preconditions of \<^verbatim>\<open>AerospikeClient_ScanApply_Invoke\<close> are tested in the
  order client handle, null names, list check, and the first one violated decides the
  whole trace: one \<^verbatim>\<open>as_error_update\<close> and the report of that error, whatever the later
  arguments are. In every call, the first step that leaves an error (a failed
  precondition or a collaborator returning with a code other than \<^verbatim>\<open>AEROSPIKE_OK\<close>) is
  followed by nothing but the calls after the label \<^verbatim>\<open>CLEANUP\<close>, the call returns null
  and the error raised is the error of that step; when no step leaves an error the
  call raises nothing and returns an object.
\<close>

theorem scanApply_first_violation_wins:
  "(client_handle self = None \<longrightarrow>
      trace (AerospikeClient_ScanApply_Invoke E self namespace_p set_p module_p function_p
               py_args py_policy py_options)
        = [Ev_as_error_update AEROSPIKE_ERR_PARAM ''Invalid aerospike object'',
           Ev_PyErr_SetObject \<lparr>code = AEROSPIKE_ERR_PARAM, message = ''Invalid aerospike object''\<rparr>])
   \<and> (client_handle self \<noteq> None
        \<and> (namespace_p = None \<or> set_p = None \<or> module_p = None \<or> function_p = None) \<longrightarrow>
      trace (AerospikeClient_ScanApply_Invoke E self namespace_p set_p module_p function_p
               py_args py_policy py_options)
        = [Ev_as_error_update AEROSPIKE_ERR_PARAM ''Parameter should not be null'',
           Ev_PyErr_SetObject \<lparr>code = AEROSPIKE_ERR_PARAM, message = ''Parameter should not be null''\<rparr>])
   \<and> (client_handle self \<noteq> None \<and> namespace_p \<noteq> None \<and> set_p \<noteq> None \<and> module_p \<noteq> None
        \<and> function_p \<noteq> None \<and> \<not> PyList_Check py_args \<longrightarrow>
      trace (AerospikeClient_ScanApply_Invoke E self namespace_p set_p module_p function_p
               py_args py_policy py_options)
        = [Ev_as_error_update AEROSPIKE_ERR_PARAM ''Arguments should be a list'',
           Ev_PyErr_SetObject \<lparr>code = AEROSPIKE_ERR_PARAM, message = ''Arguments should be a list''\<rparr>])
   \<and> (case first_failure (trace (AerospikeClient_ScanApply_Invoke E self namespace_p set_p
                                  module_p function_p py_args py_policy py_options)) of
        None \<Rightarrow>
          raised (AerospikeClient_ScanApply_Invoke E self namespace_p set_p module_p function_p
                    py_args py_policy py_options) = None
          \<and> retval (AerospikeClient_ScanApply_Invoke E self namespace_p set_p module_p function_p
                    py_args py_policy py_options) \<noteq> None
      | Some (e, rest) \<Rightarrow>
          raised (AerospikeClient_ScanApply_Invoke E self namespace_p set_p module_p function_p
                    py_args py_policy py_options) = Some (AerospikeError e)
          \<and> retval (AerospikeClient_ScanApply_Invoke E self namespace_p set_p module_p function_p
                    py_args py_policy py_options) = None
          \<and> list_all is_cleanup rest)"
proof (intro conjI impI)
  assume "client_handle self = None"
  then show "trace (AerospikeClient_ScanApply_Invoke E self namespace_p set_p module_p function_p
               py_args py_policy py_options)
        = [Ev_as_error_update AEROSPIKE_ERR_PARAM ''Invalid aerospike object'',
           Ev_PyErr_SetObject \<lparr>code = AEROSPIKE_ERR_PARAM, message = ''Invalid aerospike object''\<rparr>]"
    by (simp add: invoke_fail_with [OF build_invalid_client])
next
  assume "client_handle self \<noteq> None
        \<and> (namespace_p = None \<or> set_p = None \<or> module_p = None \<or> function_p = None)"
  then obtain a where "client_handle self = Some a"
    and "namespace_p = None \<or> set_p = None \<or> module_p = None \<or> function_p = None"
    by auto
  then show "trace (AerospikeClient_ScanApply_Invoke E self namespace_p set_p module_p function_p
               py_args py_policy py_options)
        = [Ev_as_error_update AEROSPIKE_ERR_PARAM ''Parameter should not be null'',
           Ev_PyErr_SetObject \<lparr>code = AEROSPIKE_ERR_PARAM, message = ''Parameter should not be null''\<rparr>]"
    by (simp add: invoke_fail_with [OF build_null_parameter])
next
  assume "client_handle self \<noteq> None \<and> namespace_p \<noteq> None \<and> set_p \<noteq> None \<and> module_p \<noteq> None
        \<and> function_p \<noteq> None \<and> \<not> PyList_Check py_args"
  then obtain a ns st md fn where "client_handle self = Some a" "namespace_p = Some ns"
    "set_p = Some st" "module_p = Some md" "function_p = Some fn" "\<not> PyList_Check py_args"
    by auto
  then show "trace (AerospikeClient_ScanApply_Invoke E self namespace_p set_p module_p function_p
               py_args py_policy py_options)
        = [Ev_as_error_update AEROSPIKE_ERR_PARAM ''Arguments should be a list'',
           Ev_PyErr_SetObject \<lparr>code = AEROSPIKE_ERR_PARAM, message = ''Arguments should be a list''\<rparr>]"
    by (simp add: invoke_fail_with [OF build_not_a_list])
next
  show "case first_failure (trace (AerospikeClient_ScanApply_Invoke E self namespace_p set_p
                                  module_p function_p py_args py_policy py_options)) of
        None \<Rightarrow>
          raised (AerospikeClient_ScanApply_Invoke E self namespace_p set_p module_p function_p
                    py_args py_policy py_options) = None
          \<and> retval (AerospikeClient_ScanApply_Invoke E self namespace_p set_p module_p function_p
                    py_args py_policy py_options) \<noteq> None
      | Some (e, rest) \<Rightarrow>
          raised (AerospikeClient_ScanApply_Invoke E self namespace_p set_p module_p function_p
                    py_args py_policy py_options) = Some (AerospikeError e)
          \<and> retval (AerospikeClient_ScanApply_Invoke E self namespace_p set_p module_p function_p
                    py_args py_policy py_options) = None
          \<and> list_all is_cleanup rest"
    unfolding AerospikeClient_ScanApply_Invoke_def by (rule eff_cleanup [OF eff_build])
qed

text \<open>
  Three runs. A null client with a null namespace and an integer as \<^verbatim>\<open>args\<close>: the
  client check decides. A valid client with a null namespace and an integer as
  \<^verbatim>\<open>args\<close>: the null check decides. A valid call whose argument conversion fails and
  leaves a list behind: the error raised is the converter's, and after the conversion
  only the list and the descriptor are destroyed and the error is reported.
\<close>

theorem scanApply_first_violation_wins_witness:
  "trace (AerospikeClient_ScanApply_Invoke fake_env None None (Some ''demo'') (Some ''mod'')
            (Some ''fn'') (PyLong 5) None None)
     = [Ev_as_error_update AEROSPIKE_ERR_PARAM ''Invalid aerospike object'',
        Ev_PyErr_SetObject \<lparr>code = AEROSPIKE_ERR_PARAM, message = ''Invalid aerospike object''\<rparr>]
   \<and> trace (AerospikeClient_ScanApply_Invoke fake_env fake_client None (Some ''demo'')
            (Some ''mod'') (Some ''fn'') (PyLong 5) None None)
     = [Ev_as_error_update AEROSPIKE_ERR_PARAM ''Parameter should not be null'',
        Ev_PyErr_SetObject \<lparr>code = AEROSPIKE_ERR_PARAM, message = ''Parameter should not be null''\<rparr>]
   \<and> first_failure (trace (AerospikeClient_ScanApply_Invoke fake_env_bad_list fake_client
            (Some ''test'') (Some ''demo'') (Some ''mod'') (Some ''fn'') (PyList []) None None))
     = Some (bad_list,
             [Ev_as_list_destroy (As_list []),
              Ev_as_scan_destroy (Some (as_scan_init ''test'' ''demo'')),
              Ev_PyErr_SetObject bad_list])
   \<and> raised (AerospikeClient_ScanApply_Invoke fake_env_bad_list fake_client
            (Some ''test'') (Some ''demo'') (Some ''mod'') (Some ''fn'') (PyList []) None None)
     = Some (AerospikeError bad_list)"
proof -
  have f: "first_failure (trace (AerospikeClient_ScanApply_Invoke fake_env_bad_list fake_client
            (Some ''test'') (Some ''demo'') (Some ''mod'') (Some ''fn'') (PyList []) None None))
     = Some (bad_list,
             [Ev_as_list_destroy (As_list []),
              Ev_as_scan_destroy (Some (as_scan_init ''test'' ''demo'')),
              Ev_PyErr_SetObject bad_list])"
    by (simp add: ScanApply_defs fake_defs error_if_set_def Let_def)
  have ch: "client_handle None = None" "client_handle fake_client = Some (Aerospike 0)"
    by (simp_all add: fake_client_def client_handle_def)
  show ?thesis
    using scanApply_first_violation_wins [of None fake_env None "Some ''demo''" "Some ''mod''"
        "Some ''fn''" "PyLong 5" None None]
      scanApply_first_violation_wins [of fake_client fake_env None "Some ''demo''" "Some ''mod''"
        "Some ''fn''" "PyLong 5" None None]
      scanApply_first_violation_wins [of fake_client fake_env_bad_list "Some ''test''"
        "Some ''demo''" "Some ''mod''" "Some ''fn''" "PyList []" None None]
    by (simp add: f ch)
qed

subsection \<open>Release of the descriptor and of the argument list\<close>

lemma created_in_simps [simp]:
  "created_in [] = []"
  "created_in (ev # evs) = created ev @ created_in evs"
  "created_in (xs @ ys) = created_in xs @ created_in ys"
  by (simp_all add: created_in_def)

lemma released_in_simps [simp]:
  "released_in [] = []"
  "released_in (ev # evs) = released ev @ released_in evs"
  "released_in (xs @ ys) = released_in xs @ released_in ys"
  by (simp_all add: released_in_def)

lemma ra_submit:
  assumes "resources_accounted l" and "scan l = Some s" and "apply_each s = None"
    and "\<not> list_ex is_attached (calls l)"
  shows "resources_accounted (ScanApply_submit E a s md fn l)"
  using assms
  by (auto simp: resources_accounted_def held_def ScanApply_submit_def fail_with_def emit_def
      Let_def split: prod.split option.split)

lemma ra_arguments:
  assumes "fresh_scan s l"
  shows "resources_accounted (ScanApply_arguments E a s md fn py_args opts l)"
  using assms
  apply (simp add: ScanApply_arguments_def Let_def split: option.split prod.split)
  apply (intro conjI impI allI ra_submit)
  apply (auto simp: fresh_scan_def resources_accounted_def held_def emit_def split: option.splits)
  done

lemma ra_policy:
  assumes "fresh_scan s l"
  shows "fresh_scan s (ScanApply_policy E pol l)"
  using assms
  by (auto simp: fresh_scan_def resources_accounted_def held_def ScanApply_policy_def emit_def
      Let_def split: prod.split option.split)

lemma fresh_scan_accounted: "fresh_scan s l \<Longrightarrow> resources_accounted l"
  by (simp add: fresh_scan_def)

lemma ra_build:
  "resources_accounted (ScanApply_build E self ns st md fn py_args pol opts)"
proof -
  have init: "fresh_scan (as_scan_init x y)
       ((emit (Ev_as_scan_init x y) locals_init)
          \<lparr>scan := Some (as_scan_init x y), is_scan_init := True\<rparr>)" for x y
    by (simp add: fresh_scan_def resources_accounted_def held_def emit_def locals_init_def
        as_scan_init_def)
  have fail: "resources_accounted (fail_with AEROSPIKE_ERR_PARAM m locals_init)" for m
    by (simp add: resources_accounted_def held_def fail_with_def emit_def locals_init_def)
  show ?thesis
    unfolding ScanApply_build_def Let_def
    by (auto split: option.split simp: fail
        intro!: ra_arguments ra_policy [OF init] fresh_scan_accounted [OF ra_policy [OF init]])
qed

lemma ra_no_destroy_in_calls:
  assumes "resources_accounted l"
  shows "Ev_as_scan_destroy x \<notin> set (calls l)"
proof
  assume "Ev_as_scan_destroy x \<in> set (calls l)"
  then have "Ev_as_scan_destroy x \<in> set (filter is_as_scan_destroy (calls l))" by simp
  with assms show False by (simp add: resources_accounted_def)
qed

lemma ra_cleanup:
  assumes ra: "resources_accounted l"
  shows "length (filter is_as_scan_destroy (trace (ScanApply_cleanup l)))
           = (if is_scan_init l then 1 else 0)"
    and "is_scan_init l = list_ex is_as_scan_init (trace (ScanApply_cleanup l))"
    and "Ev_as_scan_destroy None \<notin> set (trace (ScanApply_cleanup l))"
    and "concat (map released (trace (ScanApply_cleanup l)))
           = concat (map created (trace (ScanApply_cleanup l)))"
    and "length (concat (map created (trace (ScanApply_cleanup l)))) \<le> 1"
    and "filter is_as_list_destroy (trace (ScanApply_cleanup l))
           = (if list_ex is_attached (trace (ScanApply_cleanup l)) then []
              else map Ev_as_list_destroy (concat (map created (trace (ScanApply_cleanup l)))))"
    and "\<not> list_ex is_attached (trace (ScanApply_cleanup l)) \<or> arglist l = None"
proof -
  have r: "released_in (calls l) = []" and c: "created_in (calls l) = held l"
    and h: "length (held l) \<le> 1"
    and fs: "filter is_as_scan_destroy (calls l) = []"
    and fl: "filter is_as_list_destroy (calls l) = []"
    and i1: "is_scan_init l = list_ex is_as_scan_init (calls l)"
    and i2: "is_scan_init l = (scan l \<noteq> None)"
    and at: "if list_ex is_attached (calls l) then arglist l = None
          else (case scan l of Some s \<Rightarrow> attached_list s = [] | None \<Rightarrow> True)"
    using ra unfolding resources_accounted_def by blast+
  show "length (filter is_as_scan_destroy (trace (ScanApply_cleanup l)))
          = (if is_scan_init l then 1 else 0)"
    using fs by (cases "arglist l") (simp_all add: cleanup_trace)
  show "is_scan_init l = list_ex is_as_scan_init (trace (ScanApply_cleanup l))"
    using i1 by (cases "arglist l") (simp_all add: cleanup_trace)
  show "Ev_as_scan_destroy None \<notin> set (trace (ScanApply_cleanup l))"
    using ra_no_destroy_in_calls [OF ra] i2 by (cases "arglist l") (auto simp: cleanup_trace)
  have cr: "concat (map created (trace (ScanApply_cleanup l))) = held l"
    using c by (cases "arglist l") (simp_all add: cleanup_trace created_in_def)
  have rl: "concat (map released (trace (ScanApply_cleanup l))) = held l"
    using r i2
    by (cases "arglist l"; cases "scan l")
       (simp_all add: cleanup_trace released_in_def held_def)
  show "concat (map released (trace (ScanApply_cleanup l)))
          = concat (map created (trace (ScanApply_cleanup l)))"
    by (simp only: cr rl)
  show "length (concat (map created (trace (ScanApply_cleanup l)))) \<le> 1"
    using h by (simp only: cr)
  have att: "list_ex is_attached (trace (ScanApply_cleanup l)) = list_ex is_attached (calls l)"
    by (cases "arglist l") (simp_all add: cleanup_trace)
  show "filter is_as_list_destroy (trace (ScanApply_cleanup l))
           = (if list_ex is_attached (trace (ScanApply_cleanup l)) then []
              else map Ev_as_list_destroy (concat (map created (trace (ScanApply_cleanup l)))))"
    unfolding att cr using fl at
    by (cases "arglist l"; cases "scan l")
       (simp_all add: cleanup_trace held_def split: if_splits)
  show "\<not> list_ex is_attached (trace (ScanApply_cleanup l)) \<or> arglist l = None"
    unfolding att using at by (simp split: if_splits)
qed

text \<open>
  C4. In every call of \<^verbatim>\<open>AerospikeClient_ScanApply_Invoke\<close>, whatever the collaborators
  do:
  \<^item> \<^verbatim>\<open>as_scan_destroy\<close> is called once when the flag \<^verbatim>\<open>is_scan_init\<close> is set at the label
    and not at all otherwise, the flag is set exactly when \<^verbatim>\<open>as_scan_init\<close> was called,
    and the descriptor destroyed is never an uninitialised one;
  \<^item> the argument lists released (by \<^verbatim>\<open>as_list_destroy\<close>, or by \<^verbatim>\<open>as_scan_destroy\<close> as
    the list attached to the descriptor) are the argument lists \<^verbatim>\<open>pyobject_to_list\<close>
    created, each once, and there is at most one;
  \<^item> \<^verbatim>\<open>as_list_destroy\<close> is not called once the list is attached to the descriptor, and
    is called on the created list otherwise;
  \<^item> when the list was attached, \<^verbatim>\<open>arglist\<close> is null at the label.
\<close>

theorem scanApply_releases_once:
  "length (filter is_as_scan_destroy
       (trace (AerospikeClient_ScanApply_Invoke E self namespace_p set_p module_p function_p
                 py_args py_policy py_options)))
     = (if is_scan_init (ScanApply_build E self namespace_p set_p module_p function_p
                           py_args py_policy py_options) then 1 else 0)
   \<and> is_scan_init (ScanApply_build E self namespace_p set_p module_p function_p
                     py_args py_policy py_options)
     = list_ex is_as_scan_init
         (trace (AerospikeClient_ScanApply_Invoke E self namespace_p set_p module_p function_p
                   py_args py_policy py_options))
   \<and> Ev_as_scan_destroy None
       \<notin> set (trace (AerospikeClient_ScanApply_Invoke E self namespace_p set_p module_p
                       function_p py_args py_policy py_options))
   \<and> concat (map released
       (trace (AerospikeClient_ScanApply_Invoke E self namespace_p set_p module_p function_p
                 py_args py_policy py_options)))
     = concat (map created
         (trace (AerospikeClient_ScanApply_Invoke E self namespace_p set_p module_p function_p
                   py_args py_policy py_options)))
   \<and> length (concat (map created
       (trace (AerospikeClient_ScanApply_Invoke E self namespace_p set_p module_p function_p
                 py_args py_policy py_options)))) \<le> 1
   \<and> filter is_as_list_destroy
       (trace (AerospikeClient_ScanApply_Invoke E self namespace_p set_p module_p function_p
                 py_args py_policy py_options))
     = (if list_ex is_attached
             (trace (AerospikeClient_ScanApply_Invoke E self namespace_p set_p module_p
                       function_p py_args py_policy py_options))
        then []
        else map Ev_as_list_destroy (concat (map created
               (trace (AerospikeClient_ScanApply_Invoke E self namespace_p set_p module_p
                         function_p py_args py_policy py_options)))))
   \<and> (\<not> list_ex is_attached
           (trace (AerospikeClient_ScanApply_Invoke E self namespace_p set_p module_p function_p
                     py_args py_policy py_options))
      \<or> arglist (ScanApply_build E self namespace_p set_p module_p function_p
                    py_args py_policy py_options) = None)"
  unfolding AerospikeClient_ScanApply_Invoke_def
  by (intro conjI ra_cleanup [OF ra_build])

text \<open>
  Two runs. A submission that succeeds: the list is attached, \<^verbatim>\<open>arglist\<close> is cleared, the
  list is released through the descriptor and \<^verbatim>\<open>as_list_destroy\<close> is not called. A
  conversion that fails and leaves a list behind: the list is released by
  \<^verbatim>\<open>as_list_destroy\<close>, once.
\<close>

theorem scanApply_releases_once_witness:
  "list_ex is_attached (trace (AerospikeClient_ScanApply_Invoke fake_env fake_client
       (Some ''test'') (Some ''demo'') (Some ''mod'') (Some ''fn'') (PyList []) None None))
   \<and> arglist (ScanApply_build fake_env fake_client
       (Some ''test'') (Some ''demo'') (Some ''mod'') (Some ''fn'') (PyList []) None None) = None
   \<and> filter is_as_list_destroy (trace (AerospikeClient_ScanApply_Invoke fake_env fake_client
       (Some ''test'') (Some ''demo'') (Some ''mod'') (Some ''fn'') (PyList []) None None)) = []
   \<and> concat (map released (trace (AerospikeClient_ScanApply_Invoke fake_env fake_client
       (Some ''test'') (Some ''demo'') (Some ''mod'') (Some ''fn'') (PyList []) None None)))
     = [As_list []]
   \<and> filter is_as_list_destroy (trace (AerospikeClient_ScanApply_Invoke fake_env_bad_list
       fake_client (Some ''test'') (Some ''demo'') (Some ''mod'') (Some ''fn'') (PyList []) None None))
     = [Ev_as_list_destroy (As_list [])]
   \<and> concat (map released (trace (AerospikeClient_ScanApply_Invoke fake_env_bad_list
       fake_client (Some ''test'') (Some ''demo'') (Some ''mod'') (Some ''fn'') (PyList []) None None)))
     = [As_list []]"
proof -
  have a: "list_ex is_attached (trace (AerospikeClient_ScanApply_Invoke fake_env fake_client
       (Some ''test'') (Some ''demo'') (Some ''mod'') (Some ''fn'') (PyList []) None None))"
    and c: "concat (map created (trace (AerospikeClient_ScanApply_Invoke fake_env fake_client
       (Some ''test'') (Some ''demo'') (Some ''mod'') (Some ''fn'') (PyList []) None None)))
     = [As_list []]"
    by (simp_all add: ScanApply_defs fake_defs Let_def)
  have a': "\<not> list_ex is_attached (trace (AerospikeClient_ScanApply_Invoke fake_env_bad_list
       fake_client (Some ''test'') (Some ''demo'') (Some ''mod'') (Some ''fn'') (PyList []) None None))"
    and c': "concat (map created (trace (AerospikeClient_ScanApply_Invoke fake_env_bad_list
       fake_client (Some ''test'') (Some ''demo'') (Some ''mod'') (Some ''fn'') (PyList []) None None)))
     = [As_list []]"
    by (simp_all add: ScanApply_defs fake_defs Let_def)
  show ?thesis
    using scanApply_releases_once [of fake_env fake_client "Some ''test''" "Some ''demo''"
        "Some ''mod''" "Some ''fn''" "PyList []" None None]
      scanApply_releases_once [of fake_env_bad_list fake_client "Some ''test''" "Some ''demo''"
        "Some ''mod''" "Some ''fn''" "PyList []" None None]
    by (simp add: a c a' c')
qed

subsection \<open>Validation before conversion\<close>

lemma policy_steps_simps [simp]:
  "policy_steps [] = []"
  "policy_steps (ev # evs) = policy_step_of ev @ policy_steps evs"
  "policy_steps (xs @ ys) = policy_steps xs @ policy_steps ys"
  by (simp_all add: policy_steps_def)

lemma ps_submit: "policy_steps (calls (ScanApply_submit E a s md fn l)) = policy_steps (calls l)"
  by (simp add: ScanApply_submit_def fail_with_def emit_def Let_def split: prod.split)

lemma ps_arguments:
  "policy_steps (calls (ScanApply_arguments E a s md fn py_args opts l)) = policy_steps (calls l)"
  by (auto simp: ScanApply_arguments_def Let_def ps_submit emit_def split: option.split prod.split)

lemma ps_cleanup: "policy_steps (trace (ScanApply_cleanup l)) = policy_steps (calls l)"
  by (cases "arglist l") (simp_all add: cleanup_trace)

lemma scanApply_policy_steps:
  assumes "client_handle self = Some a"
  shows "policy_steps (trace (AerospikeClient_ScanApply_Invoke E self (Some ns) (Some st) (Some md)
                                (Some fn) (PyList xs) (Some p) opts))
           = (if code (validate_policy_scan E as_error_init p) = AEROSPIKE_OK
              then [Validated p, Converted p] else [Validated p])"
  using assms
  by (simp add: AerospikeClient_ScanApply_Invoke_def ScanApply_build_def ps_cleanup ps_arguments
      ScanApply_policy_def emit_def locals_init_def Let_def split: prod.split)

lemma scanApply_policy_rejected:
  assumes "client_handle self = Some a"
    and "code (validate_policy_scan E as_error_init p) \<noteq> AEROSPIKE_OK"
  shows "\<not> list_ex is_network (trace (AerospikeClient_ScanApply_Invoke E self (Some ns) (Some st)
                                (Some md) (Some fn) (PyList xs) (Some p) opts))"
    and "raised (AerospikeClient_ScanApply_Invoke E self (Some ns) (Some st) (Some md) (Some fn)
                                (PyList xs) (Some p) opts)
             = Some (AerospikeError (validate_policy_scan E as_error_init p))"
  using assms
  by (simp_all add: AerospikeClient_ScanApply_Invoke_def ScanApply_build_def ScanApply_cleanup_def
      ScanApply_policy_def emit_def locals_init_def Let_def)

lemma scanInfo_policy_steps:
  assumes "client_handle self = Some a"
    and "parse_scan_info E args kwds = Some pr" and "arg_info_policy pr = Some p"
  shows "policy_steps (trace (AerospikeClient_ScanInfo E self args kwds))
           = (if code (validate_policy_scan E as_error_init p) = AEROSPIKE_OK
              then [Validated p, Converted p] else [Validated p])"
  using assms
  by (simp add: AerospikeClient_ScanInfo_def ScanInfo_query_def ScanInfo_cleanup_def
      info_locals_init_def info_emit_def Let_def split: prod.split option.split)

lemma scanInfo_policy_rejected:
  assumes "client_handle self = Some a"
    and "parse_scan_info E args kwds = Some pr" and "arg_info_policy pr = Some p"
    and "code (validate_policy_scan E as_error_init p) \<noteq> AEROSPIKE_OK"
  shows "\<not> list_ex is_network (trace (AerospikeClient_ScanInfo E self args kwds))"
    and "raised (AerospikeClient_ScanInfo E self args kwds)
             = Some (AerospikeError (validate_policy_scan E as_error_init p))"
  using assms
  by (simp_all add: AerospikeClient_ScanInfo_def ScanInfo_query_def ScanInfo_cleanup_def
      info_locals_init_def info_emit_def Let_def)

text \<open>
  C5. Take a policy object \<open>p\<close> that is supplied to both operations, on calls that
  reach the policy: a valid client handle and, for \<^verbatim>\<open>scan_apply\<close>, four names and a
  list of arguments; for \<^verbatim>\<open>scan_info\<close>, arguments the parser accepts. In both
  operations the policy handling of the call is the same sequence: \<open>p\<close> is validated
  by \<^verbatim>\<open>validate_policy_scan\<close>, and converted after that exactly when the validator
  left no error (by \<^verbatim>\<open>pyobject_to_policy_scan\<close> in \<^verbatim>\<open>scan_apply\<close>, by
  \<^verbatim>\<open>pyobject_to_policy_info\<close> in \<^verbatim>\<open>scan_info\<close>). When the validator leaves an error,
  neither call reaches the store and both raise the validator's error.
\<close>

theorem policy_validated_then_converted:
  assumes "client_handle self = Some a"
    and "parse_scan_info E args kwds = Some pr" and "arg_info_policy pr = Some p"
  shows "policy_steps (trace (AerospikeClient_ScanApply_Invoke E self (Some ns) (Some st) (Some md)
                                (Some fn) (PyList xs) (Some p) opts))
           = (if code (validate_policy_scan E as_error_init p) = AEROSPIKE_OK
              then [Validated p, Converted p] else [Validated p])
       \<and> policy_steps (trace (AerospikeClient_ScanInfo E self args kwds))
           = policy_steps (trace (AerospikeClient_ScanApply_Invoke E self (Some ns) (Some st)
                                (Some md) (Some fn) (PyList xs) (Some p) opts))
       \<and> (code (validate_policy_scan E as_error_init p) \<noteq> AEROSPIKE_OK \<longrightarrow>
            \<not> list_ex is_network (trace (AerospikeClient_ScanApply_Invoke E self (Some ns) (Some st)
                                (Some md) (Some fn) (PyList xs) (Some p) opts))
            \<and> raised (AerospikeClient_ScanApply_Invoke E self (Some ns) (Some st) (Some md)
                                (Some fn) (PyList xs) (Some p) opts)
                = Some (AerospikeError (validate_policy_scan E as_error_init p))
            \<and> \<not> list_ex is_network (trace (AerospikeClient_ScanInfo E self args kwds))
            \<and> raised (AerospikeClient_ScanInfo E self args kwds)
                = Some (AerospikeError (validate_policy_scan E as_error_init p)))"
  using scanApply_policy_steps [OF assms(1)] scanInfo_policy_steps [OF assms]
    scanApply_policy_rejected [OF assms(1)] scanInfo_policy_rejected [OF assms]
  by simp

text \<open>
  Two runs with the policy \<^verbatim>\<open>{}\<close>: a validator that accepts it (validated, then
  converted, in both operations), and one that rejects it (validated only, no store
  call, the validator's error raised by both).
\<close>

theorem policy_validated_then_converted_witness:
  "policy_steps (trace (AerospikeClient_ScanApply_Invoke fake_env fake_client (Some ''test'')
       (Some ''demo'') (Some ''mod'') (Some ''fn'') (PyList []) (Some (PyDict [])) None))
     = [Validated (PyDict []), Converted (PyDict [])]
   \<and> policy_steps (trace (AerospikeClient_ScanInfo fake_env fake_client
       (PyTuple [PyLong 42, PyDict []]) None))
     = [Validated (PyDict []), Converted (PyDict [])]
   \<and> policy_steps (trace (AerospikeClient_ScanInfo fake_env_bad_policy fake_client
       (PyTuple [PyLong 42, PyDict []]) None))
     = [Validated (PyDict [])]
   \<and> \<not> list_ex is_network (trace (AerospikeClient_ScanApply_Invoke fake_env_bad_policy fake_client
       (Some ''test'') (Some ''demo'') (Some ''mod'') (Some ''fn'') (PyList []) (Some (PyDict [])) None))
   \<and> \<not> list_ex is_network (trace (AerospikeClient_ScanInfo fake_env_bad_policy fake_client
       (PyTuple [PyLong 42, PyDict []]) None))
   \<and> raised (AerospikeClient_ScanInfo fake_env_bad_policy fake_client
       (PyTuple [PyLong 42, PyDict []]) None) = Some (AerospikeError bad_policy)"
proof -
  have ch: "client_handle fake_client = Some (Aerospike 0)"
    by (simp add: fake_client_def client_handle_def)
  have p1: "parse_scan_info fake_env (PyTuple [PyLong 42, PyDict []]) None
              = Some \<lparr>arg_scanid = 42, arg_info_policy = Some (PyDict [])\<rparr>"
    and p2: "parse_scan_info fake_env_bad_policy (PyTuple [PyLong 42, PyDict []]) None
              = Some \<lparr>arg_scanid = 42, arg_info_policy = Some (PyDict [])\<rparr>"
    by (simp_all add: fake_env_def fake_env_bad_policy_def fake_parse_info_def)
  have v1: "code (validate_policy_scan fake_env as_error_init (PyDict [])) = AEROSPIKE_OK"
    and v2: "validate_policy_scan fake_env_bad_policy as_error_init (PyDict []) = bad_policy"
    and v3: "code bad_policy \<noteq> AEROSPIKE_OK"
    by (simp_all add: fake_env_def fake_env_bad_policy_def as_error_init_def bad_policy_def)
  show ?thesis
    using policy_validated_then_converted [OF ch p1, of "PyDict []" "''test''" "''demo''" "''mod''"
        "''fn''" "[]" None]
      policy_validated_then_converted [OF ch p2, of "PyDict []" "''test''" "''demo''" "''mod''"
        "''fn''" "[]" None]
    by (simp add: v1 v2 v3)
qed

subsection \<open>A result or an error\<close>














subsection \<open>The job identifier handed to the caller\<close>

lemma sint_eq_uint_iff: "(sint (w :: 64 word) = uint w) = (uint w < 2 ^ 63)"
proof -
  have "(0::int) \<le> uint w" by simp
  then have "- 9223372036854775808 \<le> uint w" by linarith
  then show ?thesis by (simp add: sint_uint signed_take_bit_int_eq_self_iff)
qed

lemma sint_nonneg_iff: "(0 \<le> sint (w :: 64 word)) = (uint w < 2 ^ 63)"
proof
  assume n: "0 \<le> sint w"
  have l: "sint w < 2 ^ 63" using sint_lt [of w] by simp
  then have "sint w < 2 ^ 64" by simp
  with n have "take_bit 64 (sint w) = sint w" by (simp add: take_bit_int_eq_self)
  then have "uint w = sint w" using uint_sint [of w] by simp
  with l show "uint w < 2 ^ 63" by simp
next
  assume "uint w < 2 ^ 63"
  then have "sint w = uint w" by (simp add: sint_eq_uint_iff)
  then show "0 \<le> sint w" by simp
qed

text \<open>
  C8, as the specification states it, fails: when the store issues the job identifier
  \<open>2 ^ 63\<close>, a \<^verbatim>\<open>uint64_t\<close>, for a valid submission with an empty argument list,
  \<^verbatim>\<open>PyLong_FromLong(scan_id)\<close> reads it as a \<^verbatim>\<open>long\<close> and the caller gets \<open>- (2 ^ 63)\<close>,
  a negative integer that is not the identifier of the store.
\<close>

theorem scanApply_job_id_counterexample:
  "Ev_aerospike_scan_background
       \<lparr>scan_ns = ''test'', scan_set = ''demo'', scan_opts = None,
          apply_each = Some (''mod'', ''fn'', Some (As_list []))\<rparr>
       as_error_init 9223372036854775808
     \<in> set (trace (AerospikeClient_ScanApply fake_env_big_id fake_client
           (PyTuple [PyStr ''test'', PyStr ''demo'', PyStr ''mod'', PyStr ''fn'', PyList []]) None))
   \<and> raised (AerospikeClient_ScanApply fake_env_big_id fake_client
           (PyTuple [PyStr ''test'', PyStr ''demo'', PyStr ''mod'', PyStr ''fn'', PyList []]) None)
       = None
   \<and> retval (AerospikeClient_ScanApply fake_env_big_id fake_client
           (PyTuple [PyStr ''test'', PyStr ''demo'', PyStr ''mod'', PyStr ''fn'', PyList []]) None)
       = Some (PyLong (- 9223372036854775808))"
  by (simp add: AerospikeClient_ScanApply_def ScanApply_defs fake_defs Let_def)

text \<open>
  C8, amended. Take a valid client, four names, an empty list of arguments, no policy
  and no options; let the converter accept the empty list, the attachment of the UDF
  succeed and the store accept the submission with the job identifier \<open>sid\<close>. Then
  \<^verbatim>\<open>AerospikeClient_ScanApply_Invoke\<close> raises nothing and returns the 64 bits of \<open>sid\<close>
  read as a signed \<^verbatim>\<open>long\<close>. That integer is non-negative exactly when \<open>sid\<close> is below
  \<open>2 ^ 63\<close>, and exactly then it is the identifier the store issued.
\<close>

theorem scanApply_returns_job_id:
  assumes "client_handle self = Some a"
    and "pyobject_to_list E as_error_init (PyList []) = (e1, al)"
    and "code e1 = AEROSPIKE_OK"
    and "as_scan_apply_each_ok E (as_scan_init ns st) md fn al"
    and "aerospike_scan_background E a e1 None
           ((as_scan_init ns st)\<lparr>apply_each := Some (md, fn, al)\<rparr>) = (e2, sid)"
    and "code e2 = AEROSPIKE_OK"
  shows "raised (AerospikeClient_ScanApply_Invoke E self (Some ns) (Some st) (Some md) (Some fn)
                   (PyList []) None None) = None
       \<and> retval (AerospikeClient_ScanApply_Invoke E self (Some ns) (Some st) (Some md) (Some fn)
                   (PyList []) None None) = Some (PyLong (sint sid))
       \<and> (0 \<le> sint sid) = (uint sid < 2 ^ 63)
       \<and> (sint sid = uint sid) = (uint sid < 2 ^ 63)"
proof -
  have "raised (AerospikeClient_ScanApply_Invoke E self (Some ns) (Some st) (Some md) (Some fn)
                   (PyList []) None None) = None"
    and "retval (AerospikeClient_ScanApply_Invoke E self (Some ns) (Some st) (Some md) (Some fn)
                   (PyList []) None None) = Some (PyLong (sint sid))"
    using assms by (simp_all add: ScanApply_defs Let_def)
  then show ?thesis
    by (simp only: sint_nonneg_iff sint_eq_uint_iff simp_thms)
qed

text \<open>The scenario of the specification: the store issues job 42, the caller gets 42.\<close>

theorem scanApply_returns_job_id_witness:
  "raised (AerospikeClient_ScanApply_Invoke fake_env fake_client (Some ''test'') (Some ''demo'')
             (Some ''mod'') (Some ''fn'') (PyList []) None None) = None
   \<and> retval (AerospikeClient_ScanApply_Invoke fake_env fake_client (Some ''test'') (Some ''demo'')
             (Some ''mod'') (Some ''fn'') (PyList []) None None) = Some (PyLong 42)"
proof -
  have ch: "client_handle fake_client = Some (Aerospike 0)"
    by (simp add: fake_client_def client_handle_def)
  have l: "pyobject_to_list fake_env as_error_init (PyList []) = (as_error_init, Some (As_list []))"
    and c: "code as_error_init = AEROSPIKE_OK"
    and ok: "as_scan_apply_each_ok fake_env (as_scan_init ''test'' ''demo'') ''mod'' ''fn''
               (Some (As_list []))"
    and b: "aerospike_scan_background fake_env (Aerospike 0) as_error_init None
              ((as_scan_init ''test'' ''demo'')\<lparr>apply_each := Some (''mod'', ''fn'', Some (As_list []))\<rparr>)
              = (as_error_init, 42)"
    by (simp_all add: fake_env_def fake_list_def as_error_init_def)
  show ?thesis
    using scanApply_returns_job_id [OF ch l c ok b c] by simp
qed

subsection \<open>The dictionary allocation of scan_info\<close>








subsection \<open>No state between calls\<close>

text \<open>
  C9. \<^verbatim>\<open>AerospikeClient_ScanInfo\<close> declares no variable that outlives a call but the
  constant \<^verbatim>\<open>kwlist\<close>; every other variable is a local that is set anew at entry (lines
  192 to 203), which is what the embedding says. What a call hands back is therefore
  fixed by what the store answers in that very call. Take any two calls, in any two
  environments, with any clients and arguments, whose traces hold a store query for the
  same job identifier with the same answer: return value, error and raw snapshot; let
  the constant be the same. Then each call asked the store exactly once; each call
  returns the snapshot built from that answer when the answer is a success without
  error and its dictionary was allocated, and null when the answer left an error or
  the allocation failed; so two snapshots returned are identical, and when the
  allocation has the same outcome in both calls, both return the same object and leave
  the same exception pending.
\<close>

theorem scanInfo_deterministic:
  assumes "Ev_aerospike_scan_info sid st e info
             \<in> set (trace (AerospikeClient_ScanInfo E1 self1 args1 kwds1))"
    and "Ev_aerospike_scan_info sid st e info
             \<in> set (trace (AerospikeClient_ScanInfo E2 self2 args2 kwds2))"
    and "AS_SCAN_STATUS E1 = AS_SCAN_STATUS E2"
  shows "(\<forall>d1 d2. retval (AerospikeClient_ScanInfo E1 self1 args1 kwds1) = Some d1
                 \<and> retval (AerospikeClient_ScanInfo E2 self2 args2 kwds2) = Some d2
               \<longrightarrow> d1 = d2)
       \<and> (PyDict_New_ok E1 = PyDict_New_ok E2 \<longrightarrow>
            retval (AerospikeClient_ScanInfo E1 self1 args1 kwds1)
              = retval (AerospikeClient_ScanInfo E2 self2 args2 kwds2)
            \<and> raised (AerospikeClient_ScanInfo E1 self1 args1 kwds1)
              = raised (AerospikeClient_ScanInfo E2 self2 args2 kwds2))
       \<and> filter is_network (trace (AerospikeClient_ScanInfo E1 self1 args1 kwds1))
           = [Ev_aerospike_scan_info sid st e info]
       \<and> filter is_network (trace (AerospikeClient_ScanInfo E2 self2 args2 kwds2))
           = [Ev_aerospike_scan_info sid st e info]
       \<and> retval (AerospikeClient_ScanInfo E1 self1 args1 kwds1) =
           (if code e \<noteq> AEROSPIKE_OK \<or> \<not> PyDict_New_ok E1 then None
            else if st = AEROSPIKE_OK
            then Some (PyDict [(PyStr ''progress_pct'', PyLong (uint (progress_pct info))),
                               (PyStr ''records_scanned'', PyLong (uint (records_scanned info))),
                               (PyStr ''status'', PyLong (uint (status info + AS_SCAN_STATUS E1)))])
            else Some (PyDict []))
       \<and> retval (AerospikeClient_ScanInfo E2 self2 args2 kwds2) =
           (if code e \<noteq> AEROSPIKE_OK \<or> \<not> PyDict_New_ok E2 then None
            else if st = AEROSPIKE_OK
            then Some (PyDict [(PyStr ''progress_pct'', PyLong (uint (progress_pct info))),
                               (PyStr ''records_scanned'', PyLong (uint (records_scanned info))),
                               (PyStr ''status'', PyLong (uint (status info + AS_SCAN_STATUS E2)))])
            else Some (PyDict []))
       \<and> raised (AerospikeClient_ScanInfo E2 self2 args2 kwds2) =
           (if code e \<noteq> AEROSPIKE_OK then Some (AerospikeError e)
            else if PyDict_New_ok E2 then None else Some MemoryError)"
proof -
  note r1 = scanInfo_query_event [OF assms(1)]
  note r2 = scanInfo_query_event [OF assms(2)]
  have "\<forall>d1 d2. retval (AerospikeClient_ScanInfo E1 self1 args1 kwds1) = Some d1
                 \<and> retval (AerospikeClient_ScanInfo E2 self2 args2 kwds2) = Some d2
               \<longrightarrow> d1 = d2"
    unfolding r1(1) r2(1) assms(3) by (auto split: if_splits)
  moreover have "PyDict_New_ok E1 = PyDict_New_ok E2 \<longrightarrow>
            retval (AerospikeClient_ScanInfo E1 self1 args1 kwds1)
              = retval (AerospikeClient_ScanInfo E2 self2 args2 kwds2)
            \<and> raised (AerospikeClient_ScanInfo E1 self1 args1 kwds1)
              = raised (AerospikeClient_ScanInfo E2 self2 args2 kwds2)"
    unfolding r1(1,2) r2(1,2) assms(3) by simp
  ultimately show ?thesis
    using r1 r2 by blast
qed

text \<open>
  Two calls for job 42: one without a policy, one with a policy, through another
  client, with other policy helpers and another converter. The store answers both with
  55 percent, 1000 records and raw status 1, and both calls return the same snapshot.
\<close>

theorem scanInfo_deterministic_witness:
  "retval (AerospikeClient_ScanInfo fake_env fake_client (PyTuple [PyLong 42]) None)
     = retval (AerospikeClient_ScanInfo fake_env_other other_client
                 (PyTuple [PyLong 42, PyDict []]) None)
   \<and> retval (AerospikeClient_ScanInfo fake_env_other other_client
               (PyTuple [PyLong 42, PyDict []]) None)
       = Some (PyDict [(PyStr ''progress_pct'', PyLong 55),
                       (PyStr ''records_scanned'', PyLong 1000),
                       (PyStr ''status'', PyLong 101)])
   \<and> raised (AerospikeClient_ScanInfo fake_env fake_client (PyTuple [PyLong 42]) None) = None"
proof -
  have a: "Ev_aerospike_scan_info 42 AEROSPIKE_OK as_error_init fake_info
     \<in> set (trace (AerospikeClient_ScanInfo fake_env fake_client (PyTuple [PyLong 42]) None))"
    and b: "Ev_aerospike_scan_info 42 AEROSPIKE_OK as_error_init fake_info
     \<in> set (trace (AerospikeClient_ScanInfo fake_env_other other_client
                      (PyTuple [PyLong 42, PyDict []]) None))"
    by (simp_all add: ScanInfo_defs fake_defs Let_def)
  have c: "PyDict_New_ok fake_env = PyDict_New_ok fake_env_other"
    and d: "AS_SCAN_STATUS fake_env = AS_SCAN_STATUS fake_env_other"
    by (simp_all add: fake_env_other_def)
  show ?thesis
    using scanInfo_deterministic [OF a b d] c
    by (simp add: fake_env_other_def fake_env_def fake_info_def as_error_init_def)
qed

end
